theory Spec2Isabelle
  imports Complex_Main
begin

section \<open>Numbers, rectangles and the random source\<close>

text \<open>
  Python integers are unbounded and are modelled by \<^typ>\<open>int\<close>.  Python floats are
  modelled by \<^typ>\<open>real\<close>: the model computes with exact arithmetic, rounding of
  IEEE doubles is not part of it.  A \<^verbatim>\<open>pygame.Rect\<close> stores integers; a float
  handed to it (a width, a displacement) is truncated towards zero.
\<close>

definition py_int :: "real \<Rightarrow> int" where
  "py_int r = (if 0 \<le> r then \<lfloor>r\<rfloor> else \<lceil>r\<rceil>)"

record rect =
  rx :: int
  ry :: int
  rw :: int
  rh :: int

definition Rect :: "int \<Rightarrow> int \<Rightarrow> int \<Rightarrow> int \<Rightarrow> rect" where
  "Rect x y w h = \<lparr>rx = x, ry = y, rw = w, rh = h\<rparr>"

definition rect_left :: "rect \<Rightarrow> int" where
  "rect_left r = rx r"

definition rect_right :: "rect \<Rightarrow> int" where
  "rect_right r = rx r + rw r"

definition rect_top :: "rect \<Rightarrow> int" where
  "rect_top r = ry r"

definition rect_bottom :: "rect \<Rightarrow> int" where
  "rect_bottom r = ry r + rh r"

text \<open>The centre uses C integer division, which truncates towards zero.\<close>

definition c_half :: "int \<Rightarrow> int" where
  "c_half n = (if 0 \<le> n then n div 2 else - ((- n) div 2))"

definition rect_centerx :: "rect \<Rightarrow> int" where
  "rect_centerx r = rx r + c_half (rw r)"

definition rect_centery :: "rect \<Rightarrow> int" where
  "rect_centery r = ry r + c_half (rh r)"

definition move_ip :: "real \<Rightarrow> real \<Rightarrow> rect \<Rightarrow> rect" where
  "move_ip x y r = r\<lparr>rx := rx r + py_int x, ry := ry r + py_int y\<rparr>"

text \<open>
  \<^verbatim>\<open>Rect.colliderect\<close> of pygame 2: rectangles of size zero collide with nothing,
  and two rectangles whose edges only touch do not collide.
\<close>

definition colliderect :: "rect \<Rightarrow> rect \<Rightarrow> bool" where
  "colliderect a b =
     (rw a \<noteq> 0 \<and> rh a \<noteq> 0 \<and> rw b \<noteq> 0 \<and> rh b \<noteq> 0 \<and>
      min (rx a) (rx a + rw a) < max (rx b) (rx b + rw b) \<and>
      min (ry a) (ry a + rh a) < max (ry b) (ry b + rh b) \<and>
      max (rx a + rw a) (rx a) > min (rx b) (rx b + rw b) \<and>
      max (ry a + rh a) (ry a) > min (ry b) (ry b + rh b))"

definition collidepoint :: "rect \<Rightarrow> int \<times> int \<Rightarrow> bool" where
  "collidepoint r pos =
     (rx r \<le> fst pos \<and> fst pos < rx r + rw r \<and> ry r \<le> snd pos \<and> snd pos < ry r + rh r)"

text \<open>
  The module \<^verbatim>\<open>random\<close> is a global generator.  It is modelled by the infinite
  sequence of raw draws it is going to deliver: the \<open>n\<close>-th call of a function of
  the module reads element \<open>n\<close> and the sequence is advanced by the number of calls
  made.  Every function of the module is derived from \<^verbatim>\<open>random.random()\<close>, which
  lies in \<open>[0, 1)\<close>; the raw draw is an arbitrary real whose fractional part is
  taken, so every sequence is a legal behaviour of the generator.
\<close>

type_synonym rng = "nat \<Rightarrow> real"

definition rng_drop :: "nat \<Rightarrow> rng \<Rightarrow> rng" where
  "rng_drop k g = (\<lambda>n. g (n + k))"

definition random_random :: "real \<Rightarrow> real" where
  "random_random u = frac u"

definition random_uniform :: "real \<Rightarrow> real \<Rightarrow> real \<Rightarrow> real" where
  "random_uniform a b u = a + (b - a) * random_random u"

definition random_randint :: "int \<Rightarrow> int \<Rightarrow> real \<Rightarrow> int" where
  "random_randint a b u = a + \<lfloor>random_random u * of_int (b - a + 1)\<rfloor>"

definition random_choice :: "'a list \<Rightarrow> real \<Rightarrow> 'a" where
  "random_choice xs u = xs ! nat \<lfloor>random_random u * of_nat (length xs)\<rfloor>"

section \<open>particle.py\<close>

record particle =
  pt_x :: real
  pt_y :: real
  pt_vx :: real
  pt_vy :: real
  pt_size :: real
  pt_lifetime :: int
  pt_color :: "int \<times> int \<times> int"

text \<open>The constructor makes five draws: \<open>vx\<close>, \<open>vy\<close>, \<open>size\<close>, red, green.\<close>

definition Particle_init :: "int \<Rightarrow> int \<Rightarrow> rng \<Rightarrow> particle" where
  "Particle_init x y g =
     \<lparr>pt_x = of_int x, pt_y = of_int y,
      pt_vx = random_uniform (- 1.5) 1.5 (g 0),
      pt_vy = random_uniform (- 2) 0 (g 1),
      pt_size = of_int (random_randint 5 10 (g 2)),
      pt_lifetime = 50,
      pt_color = (random_randint 200 255 (g 3), random_randint 100 200 (g 4), 0)\<rparr>"

definition Particle_update :: "particle \<Rightarrow> particle" where
  "Particle_update p =
     (case pt_color p of (r, g, b) \<Rightarrow>
        p\<lparr>pt_x := pt_x p + pt_vx p,
          pt_y := pt_y p + pt_vy p,
          pt_size := max (pt_size p - 0.2) 0,
          pt_color := (min 255 (r + 5), max 0 (g - 5), 0),
          pt_lifetime := pt_lifetime p - 1\<rparr>)"

text \<open>
  \<^verbatim>\<open>for _ in range(n): particles.append(Particle(x, y))\<close>: the \<open>i\<close>-th particle
  reads the draws \<open>5 i, \<dots>, 5 i + 4\<close>; the loop consumes \<open>5 n\<close> draws.
\<close>

definition spawn_particles :: "nat \<Rightarrow> int \<Rightarrow> int \<Rightarrow> rng \<Rightarrow> particle list" where
  "spawn_particles n x y g = map (\<lambda>i. Particle_init x y (rng_drop (5 * i) g)) [0..<n]"

section \<open>star.py\<close>

record star =
  st_x :: int
  st_y :: real
  st_size :: int
  st_speed :: real

definition Star_init :: "rng \<Rightarrow> star" where
  "Star_init g =
     \<lparr>st_x = random_randint 0 800 (g 0), st_y = of_int (random_randint 0 600 (g 1)),
      st_size = random_randint 1 3 (g 2), st_speed = random_uniform 0.5 2.0 (g 3)\<rparr>"

text \<open>A star that leaves the screen makes one draw for its new column.\<close>

definition Star_update :: "star \<Rightarrow> rng \<Rightarrow> star \<times> rng" where
  "Star_update s g =
     (if st_y s + st_speed s > 600
      then (s\<lparr>st_y := 0, st_x := random_randint 0 800 (g 0)\<rparr>, rng_drop 1 g)
      else (s\<lparr>st_y := st_y s + st_speed s\<rparr>, g))"

fun update_stars :: "star list \<Rightarrow> rng \<Rightarrow> star list \<times> rng" where
  "update_stars [] g = ([], g)"
| "update_stars (s # ss) g =
     (case Star_update s g of (s', g') \<Rightarrow>
        (case update_stars ss g' of (ss', g'') \<Rightarrow> (s' # ss', g'')))"

section \<open>power_up.py\<close>

text \<open>
  The three strings of \<^verbatim>\<open>special_brick_types\<close> are the only tags the game ever
  creates; they are modelled as an enumeration, the Python \<^verbatim>\<open>None\<close> as
  \<^const>\<open>None\<close>.
\<close>

datatype power_up_type = increase_paddle_size | slow_ball | extra_life

definition special_brick_types :: "power_up_type list" where
  "special_brick_types = [increase_paddle_size, slow_ball, extra_life]"

record power_up =
  pu_x :: int
  pu_y :: int
  pu_type :: power_up_type
  pu_rect :: rect

definition PowerUp_init :: "int \<Rightarrow> int \<Rightarrow> power_up_type \<Rightarrow> power_up" where
  "PowerUp_init x y t = \<lparr>pu_x = x, pu_y = y, pu_type = t, pu_rect = Rect x y 20 20\<rparr>"

definition PowerUp_move :: "power_up \<Rightarrow> power_up" where
  "PowerUp_move p = p\<lparr>pu_rect := (pu_rect p)\<lparr>ry := ry (pu_rect p) + 2\<rparr>\<rparr>"

section \<open>brick.py\<close>

record brick_fragment =
  bf_x :: real
  bf_y :: real
  bf_width :: real
  bf_height :: real
  bf_vx :: real
  bf_vy :: real
  bf_color :: "int \<times> int \<times> int"
  bf_fade_speed :: real

definition BrickFragment_update :: "brick_fragment \<Rightarrow> brick_fragment" where
  "BrickFragment_update f =
     f\<lparr>bf_x := bf_x f + bf_vx f,
       bf_y := bf_y f + bf_vy f,
       bf_width := max (bf_width f - bf_fade_speed f) 0,
       bf_height := max (bf_height f - bf_fade_speed f) 0\<rparr>"

record brick =
  brick_rect :: rect
  frame_counter :: int
  flicker_offset :: int
  max_flicker_offset :: int
  flicker_direction :: int
  brick_power_up_type :: "power_up_type option"

definition Brick_init :: "int \<Rightarrow> int \<Rightarrow> brick" where
  "Brick_init x y =
     \<lparr>brick_rect = Rect x y 70 20, frame_counter = 0, flicker_offset = 0,
      max_flicker_offset = 2, flicker_direction = 1, brick_power_up_type = None\<rparr>"

text \<open>
  \<^verbatim>\<open>Brick.draw\<close> advances the animation state of the brick.  Every fifth frame
  \<^verbatim>\<open>draw_electric_arcs\<close> draws three arcs with seven random draws each; the arcs
  are only painted, so their effect on the state is that 21 draws are consumed.
\<close>

definition Brick_draw :: "brick \<Rightarrow> rng \<Rightarrow> brick \<times> rng" where
  "Brick_draw b g =
     (let fc = frame_counter b + 1;
          off = (if fc mod 10 = 0 then flicker_offset b + flicker_direction b
                 else flicker_offset b);
          dir = (if fc mod 10 = 0 \<and> \<bar>off\<bar> \<ge> max_flicker_offset b
                 then flicker_direction b * (- 1) else flicker_direction b)
      in (b\<lparr>frame_counter := fc, flicker_offset := off, flicker_direction := dir\<rparr>,
          if fc mod 5 = 0 then rng_drop 21 g else g))"

text \<open>
  \<^verbatim>\<open>break_into_fragments\<close> makes five draws: width, height, fade speed, and in the
  constructor of the fragment \<open>vx\<close> and \<open>vy\<close>.  \<^verbatim>\<open>//\<close> is floor division.
\<close>

definition break_into_fragments :: "brick \<Rightarrow> rng \<Rightarrow> brick_fragment" where
  "break_into_fragments b g =
     \<lparr>bf_x = of_int (rx (brick_rect b)), bf_y = of_int (ry (brick_rect b)),
      bf_width = random_uniform (of_int (rw (brick_rect b) div 4))
                   (of_int (rw (brick_rect b) div 2)) (g 0),
      bf_height = random_uniform (of_int (rh (brick_rect b) div 4))
                    (of_int (rh (brick_rect b) div 2)) (g 1),
      bf_vx = random_uniform (- 1) 1 (g 3),
      bf_vy = random_uniform 1 3 (g 4),
      bf_color = (255, 0, 0),
      bf_fade_speed = random_uniform 0.05 0.1 (g 2)\<rparr>"

definition spawn_fragments :: "nat \<Rightarrow> brick \<Rightarrow> rng \<Rightarrow> brick_fragment list" where
  "spawn_fragments n b g = map (\<lambda>i. break_into_fragments b (rng_drop (5 * i) g)) [0..<n]"

section \<open>paddle.py\<close>

record paddle =
  paddle_rect :: rect

definition Paddle_init :: paddle where
  "Paddle_init = \<lparr>paddle_rect = Rect (400 - 50) 580 100 10\<rparr>"

text \<open>
  \<^verbatim>\<open>if 0 < self.rect.left + dx < 800 - 100: self.rect.move_ip(dx, 0)\<close>.  The game
  only calls the method with the integers \<open>-9\<close> and \<open>9\<close>.
\<close>

definition Paddle_move :: "int \<Rightarrow> paddle \<Rightarrow> paddle" where
  "Paddle_move d p =
     (if 0 < rect_left (paddle_rect p) + d \<and> rect_left (paddle_rect p) + d < 800 - 100
      then p\<lparr>paddle_rect := move_ip (of_int d) 0 (paddle_rect p)\<rparr>
      else p)"

section \<open>ball.py\<close>

record ball =
  ball_rect :: rect
  ball_dx :: real
  ball_dy :: real
  trail :: "particle list"

definition Ball_init :: ball where
  "Ball_init = \<lparr>ball_rect = Rect (400 - 10) (300 - 10) 20 20, ball_dx = 5, ball_dy = - 5,
                trail = []\<rparr>"

text \<open>\<^verbatim>\<open>Ball.move\<close> makes the five draws of one trail particle.\<close>

definition Ball_move :: "ball \<Rightarrow> rng \<Rightarrow> ball \<times> rng" where
  "Ball_move b g =
     (let tr = trail b @ [Particle_init (rect_centerx (ball_rect b)) (rect_centery (ball_rect b)) g];
          tr' = (if length tr > 20 then tl tr else tr)
      in (b\<lparr>trail := tr', ball_rect := move_ip (ball_dx b) (ball_dy b) (ball_rect b)\<rparr>,
          rng_drop 5 g))"

definition Ball_check_collision_with_walls :: "ball \<Rightarrow> ball" where
  "Ball_check_collision_with_walls b =
     (let b1 = (if rect_left (ball_rect b) \<le> 0 \<or> rect_right (ball_rect b) \<ge> 800
                then b\<lparr>ball_dx := - ball_dx b\<rparr> else b)
      in if rect_top (ball_rect b1) \<le> 0 then b1\<lparr>ball_dy := - ball_dy b1\<rparr> else b1)"

text \<open>\<^verbatim>\<open>Ball.draw\<close> updates every particle of the trail before painting it.\<close>

definition Ball_draw :: "ball \<Rightarrow> ball" where
  "Ball_draw b = b\<lparr>trail := map Particle_update (trail b)\<rparr>"

section \<open>text_input_box.py, passtext_input_box.py, button.py\<close>

text \<open>
  Events are the ones the game inspects.  Colours, fonts and rendered text
  surfaces of the widgets belong to the drawing surface and are left out; what
  \<^verbatim>\<open>print\<close> writes is collected in a list of messages.
\<close>

datatype key = K_RETURN | K_BACKSPACE | K_p | K_r | K_other

datatype event =
    QUIT
  | WINDOWFOCUSLOST
  | WINDOWFOCUSGAINED
  | KEYDOWN key string
  | MOUSEBUTTONDOWN "int \<times> int"
  | MOUSEMOTION "int \<times> int"
  | OTHER_EVENT

datatype message =
    Msg_text string
  | Msg_cannot_be_empty
  | Msg_incorrect
  | Msg_welcome_back string "int option"
  | Msg_already_taken string
  | Msg_registered string
  | Msg_high_score_updated string
  | Msg_not_found "string option"
  | Msg_new_high_score "string option" int

record text_input_box =
  tb_rect :: rect
  tb_text :: string
  tb_active :: bool

definition TextInputBox_init :: "int \<Rightarrow> int \<Rightarrow> int \<Rightarrow> int \<Rightarrow> text_input_box" where
  "TextInputBox_init x y w h = \<lparr>tb_rect = Rect x y w h, tb_text = [], tb_active = False\<rparr>"

fun TextInputBox_handle_event :: "event \<Rightarrow> text_input_box \<Rightarrow> text_input_box \<times> message list" where
  "TextInputBox_handle_event (MOUSEBUTTONDOWN pos) b =
     (if collidepoint (tb_rect b) pos then b\<lparr>tb_active := \<not> tb_active b\<rparr>
      else b\<lparr>tb_active := False\<rparr>, [])"
| "TextInputBox_handle_event (KEYDOWN k u) b =
     (if tb_active b then
        (if k = K_RETURN then (b\<lparr>tb_text := []\<rparr>, [Msg_text (tb_text b)])
         else if k = K_BACKSPACE then (b\<lparr>tb_text := butlast (tb_text b)\<rparr>, [])
         else (b\<lparr>tb_text := tb_text b @ u\<rparr>, []))
      else (b, []))"
| "TextInputBox_handle_event _ b = (b, [])"

definition TextInputBox_reset :: "text_input_box \<Rightarrow> text_input_box" where
  "TextInputBox_reset b = b\<lparr>tb_text := []\<rparr>"

record pass_text_input_box =
  pb_rect :: rect
  pb_text :: string
  pb_masked_text :: string
  pb_active :: bool

definition PassTextInputBox_init :: "int \<Rightarrow> int \<Rightarrow> int \<Rightarrow> int \<Rightarrow> pass_text_input_box" where
  "PassTextInputBox_init x y w h =
     \<lparr>pb_rect = Rect x y w h, pb_text = [], pb_masked_text = [], pb_active = False\<rparr>"

fun PassTextInputBox_handle_event ::
  "event \<Rightarrow> pass_text_input_box \<Rightarrow> pass_text_input_box \<times> message list" where
  "PassTextInputBox_handle_event (MOUSEBUTTONDOWN pos) b =
     (if collidepoint (pb_rect b) pos then b\<lparr>pb_active := \<not> pb_active b\<rparr>
      else b\<lparr>pb_active := False\<rparr>, [])"
| "PassTextInputBox_handle_event (KEYDOWN k u) b =
     (if pb_active b then
        (if k = K_RETURN then (b\<lparr>pb_text := [], pb_masked_text := []\<rparr>, [Msg_text (pb_text b)])
         else if k = K_BACKSPACE
           then (b\<lparr>pb_text := butlast (pb_text b), pb_masked_text := butlast (pb_masked_text b)\<rparr>, [])
         else (b\<lparr>pb_text := pb_text b @ u, pb_masked_text := pb_masked_text b @ ''*''\<rparr>, []))
      else (b, []))"
| "PassTextInputBox_handle_event _ b = (b, [])"

definition PassTextInputBox_reset :: "pass_text_input_box \<Rightarrow> pass_text_input_box" where
  "PassTextInputBox_reset b = b\<lparr>pb_text := [], pb_masked_text := []\<rparr>"

record button =
  bt_rect :: rect
  bt_hovered :: bool

definition Button_init :: "int \<Rightarrow> int \<Rightarrow> int \<Rightarrow> int \<Rightarrow> button" where
  "Button_init x y w h = \<lparr>bt_rect = Rect x y w h, bt_hovered = False\<rparr>"

fun Button_handle_event :: "event \<Rightarrow> button \<Rightarrow> button \<times> bool" where
  "Button_handle_event (MOUSEMOTION pos) b = (b\<lparr>bt_hovered := collidepoint (bt_rect b) pos\<rparr>, False)"
| "Button_handle_event (MOUSEBUTTONDOWN pos) b = (b, collidepoint (bt_rect b) pos)"
| "Button_handle_event _ b = (b, False)"

section \<open>user_auth.py\<close>

text \<open>
  The module keeps the dictionary \<^verbatim>\<open>users\<close>.  The SHA-256 digest of the
  standard library is modelled symbolically, as a constructor applied to the
  password.  Writing the dictionary to the file \<^verbatim>\<open>users.json\<close> does not
  change the dictionary and is not modelled.
\<close>

datatype digest = sha256_hexdigest string

record user =
  password :: digest
  high_score :: int

type_synonym users = "string \<rightharpoonup> user"

definition auth_register_user :: "string \<Rightarrow> string \<Rightarrow> users \<Rightarrow> users \<times> message list" where
  "auth_register_user username pw us =
     (case us username of
        Some _ \<Rightarrow> (us, [Msg_already_taken username])
      | None \<Rightarrow> (us(username \<mapsto> \<lparr>password = sha256_hexdigest pw, high_score = 0\<rparr>),
                 [Msg_registered username]))"

definition auth_login_user :: "string \<Rightarrow> string \<Rightarrow> users \<Rightarrow> bool" where
  "auth_login_user username pw us =
     (case us username of
        Some u \<Rightarrow> password u = sha256_hexdigest pw
      | None \<Rightarrow> False)"

text \<open>
  The game passes \<^verbatim>\<open>self.current_user\<close>, which is \<^verbatim>\<open>None\<close> before a login;
  \<^verbatim>\<open>None\<close> is not a key of the dictionary.
\<close>

definition lookup_user :: "string option \<Rightarrow> users \<Rightarrow> user option" where
  "lookup_user name us = (case name of None \<Rightarrow> None | Some n \<Rightarrow> us n)"

definition auth_update_high_score :: "string option \<Rightarrow> int \<Rightarrow> users \<Rightarrow> users \<times> message list" where
  "auth_update_high_score name sc us =
     (case name of
        None \<Rightarrow> (us, [Msg_not_found name])
      | Some n \<Rightarrow>
          (case us n of
             None \<Rightarrow> (us, [Msg_not_found name])
           | Some u \<Rightarrow>
               if sc > high_score u
               then (us(n \<mapsto> u\<lparr>high_score := sc\<rparr>), [Msg_high_score_updated n])
               else (us, [])))"

definition get_high_score :: "string option \<Rightarrow> users \<Rightarrow> int option \<times> message list" where
  "get_high_score name us =
     (case lookup_user name us of
        Some u \<Rightarrow> (Some (high_score u), [])
      | None \<Rightarrow> (None, [Msg_not_found name]))"

section \<open>breakout_game.py: the state\<close>

datatype game_state = MAIN_MENU | GAME_RUNNING | PAUSED | GAME_OVER | POST_LOGIN_MENU

datatype error = TypeError | ValueError | SystemExit

definition POWER_UP_DURATION :: int where
  "POWER_UP_DURATION = 5000"

text \<open>
  The record holds the attributes of \<^verbatim>\<open>BreakoutGame\<close> and, in its last three
  fields, the global state the methods act on: the dictionary of
  \<^verbatim>\<open>user_auth\<close>, the random generator and the standard output.  Sounds, the
  screen and the frame clock are outputs only and are left out.
\<close>

record game =
  paddle :: paddle
  ball :: ball
  default_ball_dx :: real
  default_ball_dy :: real
  row_range :: int
  bricks :: "brick list"
  particles :: "particle list"
  fragments :: "brick_fragment list"
  stars :: "star list"
  level :: int
  score :: int
  current_high_score :: "int option"
  lives :: int
  stage_bricks :: int
  active_power_up :: "power_up_type option"
  power_ups :: "power_up list"
  power_up_start_time :: int
  paddle_width_default :: int
  game_state :: game_state
  logged_in :: bool
  current_user :: "string option"
  focused :: bool
  username_input :: text_input_box
  password_input :: pass_text_input_box
  login_button :: button
  register_button :: button
  users :: users
  rng :: rng
  console :: "message list"

section \<open>breakout_game.py: bricks, power-ups, scoring, levels\<close>

definition grid_positions :: "nat \<Rightarrow> nat \<Rightarrow> (nat \<times> nat) list" where
  "grid_positions rows cols = concat (map (\<lambda>row. map (\<lambda>col. (row, col)) [0..<cols]) [0..<rows])"

text \<open>
  One brick of \<^verbatim>\<open>create_bricks\<close>: one draw decides whether the brick is special,
  a second draw, made only then, chooses the tag.
\<close>

definition create_brick :: "nat \<times> nat \<Rightarrow> rng \<Rightarrow> brick \<times> rng" where
  "create_brick rc g =
     (let b = Brick_init (int (snd rc) * 80 + 10) (int (fst rc) * 30 + 10)
      in if random_random (g 0) < 0.2
         then (b\<lparr>brick_power_up_type := Some (random_choice special_brick_types (g 1))\<rparr>,
               rng_drop 2 g)
         else (b, rng_drop 1 g))"

fun make_bricks :: "(nat \<times> nat) list \<Rightarrow> rng \<Rightarrow> brick list \<times> rng" where
  "make_bricks [] g = ([], g)"
| "make_bricks (rc # rcs) g =
     (case create_brick rc g of (b, g') \<Rightarrow>
        (case make_bricks rcs g' of (bs, g'') \<Rightarrow> (b # bs, g'')))"

definition create_bricks :: "int \<Rightarrow> int \<Rightarrow> rng \<Rightarrow> brick list \<times> rng" where
  "create_bricks rows cols g = make_bricks (grid_positions (nat rows) (nat cols)) g"

text \<open>
  \<^verbatim>\<open>activate_power_up\<close>; the second argument is the value of
  \<^verbatim>\<open>pygame.time.get_ticks()\<close>.  The width of a rectangle is an integer, the float
  \<^verbatim>\<open>paddle_width_default * 1.5\<close> is truncated.
\<close>

definition activate_power_up :: "power_up_type \<Rightarrow> int \<Rightarrow> game \<Rightarrow> game" where
  "activate_power_up t now s =
     (let s1 = (case t of
                  increase_paddle_size \<Rightarrow>
                    s\<lparr>paddle := (paddle s)\<lparr>paddle_rect := (paddle_rect (paddle s))
                         \<lparr>rw := py_int (of_int (paddle_width_default s) * 1.5)\<rparr>\<rparr>\<rparr>
                | slow_ball \<Rightarrow>
                    s\<lparr>ball := (ball s)\<lparr>ball_dx := ball_dx (ball s) * 0.7,
                                        ball_dy := ball_dy (ball s) * 0.7\<rparr>\<rparr>
                | extra_life \<Rightarrow> s\<lparr>lives := lives s + 1\<rparr>)
      in s1\<lparr>active_power_up := Some t, power_up_start_time := now\<rparr>)"

definition reset_power_ups :: "game \<Rightarrow> game" where
  "reset_power_ups s =
     (let s1 = (if active_power_up s = Some increase_paddle_size
                then s\<lparr>paddle := (paddle s)\<lparr>paddle_rect := (paddle_rect (paddle s))
                         \<lparr>rw := paddle_width_default s\<rparr>\<rparr>\<rparr>
                else if active_power_up s = Some slow_ball
                then (let direction_x = (if ball_dx (ball s) > 0 then 1 else - 1);
                          direction_y = (if ball_dy (ball s) > 0 then 1 else - 1)
                      in s\<lparr>ball := (ball s)\<lparr>ball_dx := default_ball_dx s * direction_x,
                                             ball_dy := default_ball_dy s * direction_y\<rparr>\<rparr>)
                else s)
      in s1\<lparr>active_power_up := None\<rparr>)"

definition scoring :: "game \<Rightarrow> game" where
  "scoring s =
     (let bricks_destroyed = stage_bricks s - int (length (bricks s))
      in s\<lparr>score := score s + bricks_destroyed * (level s * 100),
           stage_bricks := int (length (bricks s))\<rparr>)"

definition level_up :: "game \<Rightarrow> game" where
  "level_up s =
     (let speed_increase = 1.1;
          b = Ball_init\<lparr>ball_dx := ball_dx Ball_init * speed_increase,
                        ball_dy := ball_dy Ball_init * speed_increase\<rparr>;
          rr = (if row_range s + 1 > 10 then 10 else row_range s + 1);
          bg = create_bricks rr 10 (rng s)
      in s\<lparr>level := level s + 1,
           row_range := rr,
           paddle := Paddle_init,
           ball := b,
           default_ball_dx := ball_dx b,
           default_ball_dy := ball_dy b,
           particles := [],
           fragments := [],
           bricks := fst bg,
           stage_bricks := int (length (fst bg)),
           game_state := GAME_RUNNING,
           rng := snd bg\<rparr>)"

definition reset_game :: "game \<Rightarrow> game" where
  "reset_game s =
     (let bs = map (\<lambda>rc. Brick_init (int (snd rc) * 80 + 10) (int (fst rc) * 30 + 10))
                 (grid_positions 5 10)
      in s\<lparr>paddle := Paddle_init,
           ball := Ball_init,
           bricks := bs,
           particles := [],
           fragments := [],
           score := 0,
           level := 1,
           lives := 3,
           stage_bricks := int (length bs),
           game_state := POST_LOGIN_MENU\<rparr>)"

text \<open>
  The constructor.  Its arguments are the dictionary that
  \<^verbatim>\<open>load_users_from_file\<close> has read and the random generator.  Note that the
  source initialises \<^verbatim>\<open>default_ball_dy\<close> from \<^verbatim>\<open>self.ball.dx\<close>.
\<close>

definition BreakoutGame_init :: "users \<Rightarrow> rng \<Rightarrow> game" where
  "BreakoutGame_init us g =
     (let bg = create_bricks 5 10 g
      in \<lparr>paddle = Paddle_init,
          ball = Ball_init,
          default_ball_dx = ball_dx Ball_init,
          default_ball_dy = ball_dx Ball_init,
          row_range = 5,
          bricks = fst bg,
          particles = [],
          fragments = [],
          stars = map (\<lambda>i. Star_init (rng_drop (4 * i) (snd bg))) [0..<100],
          level = 1,
          score = 0,
          current_high_score = Some 0,
          lives = 3,
          stage_bricks = int (length (fst bg)),
          active_power_up = None,
          power_ups = [],
          power_up_start_time = 0,
          paddle_width_default = rw (paddle_rect Paddle_init),
          game_state = MAIN_MENU,
          logged_in = False,
          current_user = None,
          focused = True,
          username_input = TextInputBox_init 300 250 200 50,
          password_input = PassTextInputBox_init 300 350 200 50,
          login_button = Button_init 300 450 200 50,
          register_button = Button_init 300 520 200 50,
          users = us,
          rng = rng_drop 400 (snd bg),
          console = []\<rparr>)"

section \<open>breakout_game.py: login and registration\<close>

text \<open>
  \<^verbatim>\<open>str.strip()\<close> removes leading and trailing whitespace.  Strings are lists of
  8-bit characters here, read as the code points below 256; the whitespace
  among them is tab to carriage return, the four separators 28 to 31, the
  space, the next-line character 133 and the no-break space 160.
\<close>

definition py_isspace :: "char \<Rightarrow> bool" where
  "py_isspace c = (of_char c \<in> {9, 10, 11, 12, 13, 28, 29, 30, 31, 32, 133, 160 :: nat})"

definition strip :: "string \<Rightarrow> string" where
  "strip s = rev (dropWhile py_isspace (rev (dropWhile py_isspace s)))"

definition register_user :: "game \<Rightarrow> game" where
  "register_user s =
     (let username = strip (tb_text (username_input s));
          pw = strip (pb_text (password_input s))
      in if username \<noteq> [] \<and> pw \<noteq> []
         then (case auth_register_user username pw (users s) of (us, msgs) \<Rightarrow>
                 s\<lparr>users := us, console := console s @ msgs,
                   username_input := TextInputBox_reset (username_input s),
                   password_input := PassTextInputBox_reset (password_input s)\<rparr>)
         else s\<lparr>console := console s @ [Msg_cannot_be_empty]\<rparr>)"

definition login_user :: "game \<Rightarrow> game" where
  "login_user s =
     (let username = strip (tb_text (username_input s));
          pw = strip (pb_text (password_input s))
      in if username \<noteq> [] \<and> pw \<noteq> []
         then (if auth_login_user username pw (users s)
               then (case get_high_score (Some username) (users s) of (hs, msgs) \<Rightarrow>
                       s\<lparr>logged_in := True,
                         current_user := Some username,
                         current_high_score := hs,
                         console := console s @ msgs @ [Msg_welcome_back username hs],
                         game_state := POST_LOGIN_MENU\<rparr>)
               else s\<lparr>username_input := TextInputBox_reset (username_input s),
                      password_input := PassTextInputBox_reset (password_input s),
                      console := console s @ [Msg_incorrect]\<rparr>)
         else s\<lparr>console := console s @ [Msg_cannot_be_empty]\<rparr>)"

text \<open>
  \<^verbatim>\<open>BreakoutGame.update_high_score\<close> compares the score with the result of
  \<^verbatim>\<open>get_high_score\<close>; when that is \<^verbatim>\<open>None\<close> the comparison raises
  \<^verbatim>\<open>TypeError\<close>.
\<close>

definition update_high_score :: "game \<Rightarrow> error + game" where
  "update_high_score s =
     (case get_high_score (current_user s) (users s) of (hs, msgs) \<Rightarrow>
        (case hs of
           None \<Rightarrow> Inl TypeError
         | Some h \<Rightarrow>
             if score s > h
             then (case auth_update_high_score (current_user s) (score s) (users s) of
                     (us, msgs') \<Rightarrow>
                       Inr (s\<lparr>users := us,
                               console := console s @ msgs @ msgs' @
                                 [Msg_new_high_score (current_user s) (score s)]\<rparr>))
             else Inr (s\<lparr>console := console s @ msgs\<rparr>)))"

section \<open>breakout_game.py: the collision pass over the bricks\<close>

text \<open>\<^verbatim>\<open>list.remove(x)\<close> raises \<^verbatim>\<open>ValueError\<close> when \<open>x\<close> is not in the list.\<close>

definition list_remove :: "'a \<Rightarrow> 'a list \<Rightarrow> error + 'a list" where
  "list_remove x xs = (if x \<in> set xs then Inr (remove1 x xs) else Inl ValueError)"

text \<open>
  The body of the loop for a brick that the ball hits; \<open>rest\<close> is the list of
  bricks after \<^verbatim>\<open>bricks.remove(brick)\<close>.  The ten particles take 50 draws, the
  next draw is the number of fragments, each fragment takes five more.
\<close>

definition num_fragments :: "rng \<Rightarrow> nat" where
  "num_fragments g = nat (random_randint 4 10 (g 50))"

definition brick_hit :: "brick \<Rightarrow> brick list \<Rightarrow> game \<Rightarrow> game" where
  "brick_hit b rest s =
     s\<lparr>ball := (ball s)\<lparr>ball_dy := - ball_dy (ball s)\<rparr>,
       power_ups := (case brick_power_up_type b of
                       None \<Rightarrow> power_ups s
                     | Some t \<Rightarrow> power_ups s @
                         [PowerUp_init (rx (brick_rect b) + 25) (ry (brick_rect b)) t]),
       bricks := rest,
       particles := particles s @
          spawn_particles 10 (rect_centerx (brick_rect b)) (rect_centery (brick_rect b)) (rng s),
       fragments := fragments s @
          spawn_fragments (num_fragments (rng s)) b (rng_drop 51 (rng s)),
       rng := rng_drop (51 + 5 * num_fragments (rng s)) (rng s)\<rparr>"

fun bricks_loop :: "brick list \<Rightarrow> game \<Rightarrow> error + game" where
  "bricks_loop [] s = Inr s"
| "bricks_loop (b # bs) s =
     (if colliderect (ball_rect (ball s)) (brick_rect b)
      then (case list_remove b (bricks s) of
              Inl e \<Rightarrow> Inl e
            | Inr rest \<Rightarrow> bricks_loop bs (brick_hit b rest s))
      else bricks_loop bs s)"

text \<open>The method is called with \<^verbatim>\<open>self.bricks\<close>; the loop runs over a copy of it.\<close>

definition check_collision_with_bricks :: "game \<Rightarrow> error + game" where
  "check_collision_with_bricks s = bricks_loop (bricks s) s"

section \<open>breakout_game.py: one tick of update_game\<close>

text \<open>
  What a tick reads from its environment: the two arrow keys of
  \<^verbatim>\<open>pygame.key.get_pressed()\<close> and the clock \<^verbatim>\<open>pygame.time.get_ticks()\<close>, taken
  to show the same value throughout one tick.
\<close>

record tick_input =
  keys_left :: bool
  keys_right :: bool
  ticks :: int

text \<open>The steps of \<^verbatim>\<open>update_game\<close>, in the order of the source.\<close>

definition tick_ball :: "game \<Rightarrow> game" where
  "tick_ball s =
     (case Ball_move (ball s) (rng s) of (b, g) \<Rightarrow>
        s\<lparr>ball := Ball_check_collision_with_walls b, rng := g\<rparr>)"

definition tick_paddle :: "tick_input \<Rightarrow> game \<Rightarrow> game" where
  "tick_paddle inp s =
     (let p1 = (if keys_left inp then Paddle_move (- 9) (paddle s) else paddle s);
          p2 = (if keys_right inp then Paddle_move 9 p1 else p1)
      in s\<lparr>paddle := p2\<rparr>)"

definition tick_stars :: "game \<Rightarrow> game" where
  "tick_stars s =
     (case update_stars (stars s) (rng s) of (ss, g) \<Rightarrow> s\<lparr>stars := ss, rng := g\<rparr>)"

text \<open>\<^verbatim>\<open>Ball.check_collision_with_paddle(self.paddle, self.particles)\<close>.\<close>

definition Ball_check_collision_with_paddle :: "game \<Rightarrow> game" where
  "Ball_check_collision_with_paddle s =
     (if colliderect (ball_rect (ball s)) (paddle_rect (paddle s))
      then s\<lparr>ball := (ball s)\<lparr>ball_dy := - ball_dy (ball s)\<rparr>,
             particles := particles s @
               spawn_particles 10 (rect_centerx (ball_rect (ball s)))
                 (rect_centery (ball_rect (ball s))) (rng s),
             rng := rng_drop 50 (rng s)\<rparr>
      else s)"

text \<open>
  The two purging loops update every element of a copy of the list and remove
  the expired ones from the list itself; elements are removed by identity, so
  the list that remains holds the updated elements that have not expired, in
  their order.
\<close>

definition tick_particles :: "game \<Rightarrow> game" where
  "tick_particles s =
     s\<lparr>particles := filter (\<lambda>p. \<not> (pt_lifetime p \<le> 0 \<or> pt_size p \<le> 0))
                        (map Particle_update (particles s))\<rparr>"

definition tick_fragments :: "game \<Rightarrow> game" where
  "tick_fragments s =
     s\<lparr>fragments := filter (\<lambda>f. \<not> (bf_width f \<le> 0 \<or> bf_height f \<le> 0))
                        (map BrickFragment_update (fragments s))\<rparr>"

definition tick_scoring :: "game \<Rightarrow> game" where
  "tick_scoring s = (if int (length (bricks s)) < stage_bricks s then scoring s else s)"

definition tick_level_up :: "game \<Rightarrow> game" where
  "tick_level_up s = (if length (bricks s) = 0 then level_up s else s)"

definition tick_life_lost :: "game \<Rightarrow> game" where
  "tick_life_lost s =
     (if rect_bottom (ball_rect (ball s)) \<ge> 600 \<and> lives s > 1
      then s\<lparr>lives := lives s - 1, ball := Ball_init\<rparr>
      else s)"

definition tick_game_over :: "game \<Rightarrow> error + game" where
  "tick_game_over s =
     (if rect_bottom (ball_rect (ball s)) \<ge> 600 \<and> lives s = 1
      then (case update_high_score s of
              Inl e \<Rightarrow> Inl e
            | Inr s1 \<Rightarrow>
                (case get_high_score (current_user s1) (users s1) of (hs, msgs) \<Rightarrow>
                   Inr (s1\<lparr>current_high_score := hs,
                           console := console s1 @ msgs,
                           game_state := GAME_OVER\<rparr>)))
      else Inr s)"

text \<open>
  The loop over a copy of \<^verbatim>\<open>self.power_ups\<close>.  Each power-up is moved; one that
  touches the paddle is activated and removed; one whose top has left the screen
  is removed, which raises \<^verbatim>\<open>ValueError\<close> if it has just been removed.  The
  argument \<open>kept\<close> collects the power-ups that stay in the list.
\<close>

fun power_ups_loop ::
  "power_up list \<Rightarrow> int \<Rightarrow> power_up list \<Rightarrow> game \<Rightarrow> error + (power_up list \<times> game)" where
  "power_ups_loop [] now kept s = Inr (kept, s)"
| "power_ups_loop (p # ps) now kept s =
     (let p' = PowerUp_move p
      in if colliderect (pu_rect p') (paddle_rect (paddle s))
         then (if rect_top (pu_rect p') \<ge> 600 then Inl ValueError
               else power_ups_loop ps now kept (activate_power_up (pu_type p') now s))
         else if rect_top (pu_rect p') \<ge> 600 then power_ups_loop ps now kept s
         else power_ups_loop ps now (kept @ [p']) s)"

definition tick_power_ups :: "tick_input \<Rightarrow> game \<Rightarrow> error + game" where
  "tick_power_ups inp s =
     (case power_ups_loop (power_ups s) (ticks inp) [] s of
        Inl e \<Rightarrow> Inl e
      | Inr (kept, s') \<Rightarrow> Inr (s'\<lparr>power_ups := kept\<rparr>))"

definition tick_expiry :: "tick_input \<Rightarrow> game \<Rightarrow> game" where
  "tick_expiry inp s =
     (if active_power_up s \<noteq> None \<and> ticks inp - power_up_start_time s > POWER_UP_DURATION
      then reset_power_ups s else s)"

text \<open>The state when the tick reaches the test for the bottom of the screen.\<close>

definition tick_before_bottom :: "tick_input \<Rightarrow> game \<Rightarrow> error + game" where
  "tick_before_bottom inp s =
     (case check_collision_with_bricks
             (Ball_check_collision_with_paddle (tick_stars (tick_paddle inp (tick_ball s)))) of
        Inl e \<Rightarrow> Inl e
      | Inr s1 \<Rightarrow> Inr (tick_level_up (tick_scoring (tick_fragments (tick_particles s1)))))"

definition tick_from_bottom :: "tick_input \<Rightarrow> game \<Rightarrow> error + game" where
  "tick_from_bottom inp m =
     (case tick_game_over (tick_life_lost m) of
        Inl e \<Rightarrow> Inl e
      | Inr s2 \<Rightarrow>
          (case tick_power_ups inp s2 of
             Inl e \<Rightarrow> Inl e
           | Inr s3 \<Rightarrow> Inr (tick_expiry inp s3)))"

definition update_game :: "tick_input \<Rightarrow> game \<Rightarrow> error + game" where
  "update_game inp s =
     (if game_state s = GAME_RUNNING
      then (case tick_before_bottom inp s of
              Inl e \<Rightarrow> Inl e
            | Inr m \<Rightarrow> tick_from_bottom inp m)
      else Inr s)"

section \<open>breakout_game.py: events, drawing and the main loop\<close>

definition menu_events :: "event \<Rightarrow> game \<Rightarrow> game" where
  "menu_events ev s =
     (case TextInputBox_handle_event ev (username_input s) of (ub, m1) \<Rightarrow>
      case PassTextInputBox_handle_event ev (password_input s) of (pb, m2) \<Rightarrow>
      case Button_handle_event ev (login_button s) of (lb, login_clicked) \<Rightarrow>
        (let s1 = s\<lparr>username_input := ub, password_input := pb, login_button := lb,
                     console := console s @ m1 @ m2\<rparr>
         in if login_clicked then login_user s1
            else (case Button_handle_event ev (register_button s1) of (rb, register_clicked) \<Rightarrow>
                    (let s2 = s1\<lparr>register_button := rb\<rparr>
                     in if register_clicked then register_user s2 else s2))))"

definition is_keydown :: "key \<Rightarrow> event \<Rightarrow> bool" where
  "is_keydown k ev = (case ev of KEYDOWN k' u \<Rightarrow> k' = k | _ \<Rightarrow> False)"

text \<open>One round of the loop over \<^verbatim>\<open>pygame.event.get()\<close>; \<^verbatim>\<open>exit()\<close> ends the program.\<close>

definition handle_event :: "event \<Rightarrow> game \<Rightarrow> error + game" where
  "handle_event ev s =
     (if ev = QUIT then Inl SystemExit
      else
        (let s1 = (if ev = WINDOWFOCUSLOST then s\<lparr>focused := False\<rparr> else s);
             s2 = (if ev = WINDOWFOCUSGAINED then s1\<lparr>focused := True\<rparr> else s1);
             s3 = (if game_state s2 = MAIN_MENU then menu_events ev s2 else s2);
             s4 = (if game_state s3 = POST_LOGIN_MENU \<and> is_keydown K_RETURN ev
                   then s3\<lparr>game_state := GAME_RUNNING\<rparr> else s3);
             s5 = (if game_state s4 = GAME_RUNNING \<and> is_keydown K_p ev
                   then s4\<lparr>game_state := PAUSED\<rparr> else s4);
             s6 = (if game_state s5 = PAUSED \<and> is_keydown K_RETURN ev
                   then s5\<lparr>game_state := GAME_RUNNING\<rparr> else s5);
             s7 = (if game_state s6 = GAME_OVER \<and> is_keydown K_r ev
                   then reset_game s6 else s6)
         in Inr s7))"

fun handle_events :: "event list \<Rightarrow> game \<Rightarrow> error + game" where
  "handle_events [] s = Inr s"
| "handle_events (ev # evs) s =
     (case handle_event ev s of Inl e \<Rightarrow> Inl e | Inr s' \<Rightarrow> handle_events evs s')"

text \<open>
  Drawing paints the screen; what is modelled is what it does to the state.
  \<^verbatim>\<open>draw_main_menu\<close> places the widgets, \<^verbatim>\<open>draw_game_running\<close> calls
  \<^verbatim>\<open>Ball.draw\<close> and then \<^verbatim>\<open>Brick.draw\<close> for every brick; the other screens
  and the remaining \<^verbatim>\<open>draw\<close> methods only paint.
\<close>

definition set_topleft :: "int \<Rightarrow> int \<Rightarrow> rect \<Rightarrow> rect" where
  "set_topleft x y r = r\<lparr>rx := x, ry := y\<rparr>"

definition draw_main_menu :: "game \<Rightarrow> game" where
  "draw_main_menu s =
     s\<lparr>username_input := (username_input s)\<lparr>tb_rect := set_topleft 400 230 (tb_rect (username_input s))\<rparr>,
       password_input := (password_input s)\<lparr>pb_rect := set_topleft 400 330 (pb_rect (password_input s))\<rparr>,
       login_button := (login_button s)\<lparr>bt_rect := set_topleft 300 450 (bt_rect (login_button s))\<rparr>,
       register_button := (register_button s)\<lparr>bt_rect := set_topleft 500 450 (bt_rect (register_button s))\<rparr>\<rparr>"

fun draw_bricks :: "brick list \<Rightarrow> rng \<Rightarrow> brick list \<times> rng" where
  "draw_bricks [] g = ([], g)"
| "draw_bricks (b # bs) g =
     (case Brick_draw b g of (b', g') \<Rightarrow>
        (case draw_bricks bs g' of (bs', g'') \<Rightarrow> (b' # bs', g'')))"

definition draw_game_running :: "game \<Rightarrow> game" where
  "draw_game_running s =
     (case draw_bricks (bricks s) (rng s) of (bs, g) \<Rightarrow>
        s\<lparr>ball := Ball_draw (ball s), bricks := bs, rng := g\<rparr>)"

definition draw_game :: "game \<Rightarrow> game" where
  "draw_game s =
     (case game_state s of
        MAIN_MENU \<Rightarrow> draw_main_menu s
      | GAME_RUNNING \<Rightarrow> draw_game_running s
      | POST_LOGIN_MENU \<Rightarrow> s
      | PAUSED \<Rightarrow> s
      | GAME_OVER \<Rightarrow> s)"

text \<open>
  One iteration of the \<^verbatim>\<open>while True\<close> loop of \<^verbatim>\<open>run\<close>, given the events
  that have arrived and the inputs of the tick.
\<close>

definition run_iteration :: "tick_input \<Rightarrow> event list \<Rightarrow> game \<Rightarrow> error + game" where
  "run_iteration inp evs s =
     (case handle_events evs s of
        Inl e \<Rightarrow> Inl e
      | Inr s1 \<Rightarrow>
          (case (if focused s1
                 then (if game_state s1 = GAME_RUNNING then update_game inp s1 else Inr s1)
                 else Inr s1) of
             Inl e \<Rightarrow> Inl e
           | Inr s2 \<Rightarrow> Inr (draw_game s2)))"

text \<open>The loop never ends by itself; it is run over a finite prefix of its inputs.\<close>

fun run :: "(tick_input \<times> event list) list \<Rightarrow> game \<Rightarrow> error + game" where
  "run [] s = Inr s"
| "run (i # is) s =
     (case run_iteration (fst i) (snd i) s of Inl e \<Rightarrow> Inl e | Inr s' \<Rightarrow> run is s')"

section \<open>Well-formed states\<close>

text \<open>
  What the constructors guarantee for every state the game builds: the paddle
  is created at top 580 with height 10 and only its left edge and its width are
  ever assigned, and a power-up is created 20 by 20 and only moved.  A session
  that is being played belongs to a user with a record in the dictionary.
\<close>

definition well_formed :: "game \<Rightarrow> bool" where
  "well_formed s =
     (ry (paddle_rect (paddle s)) = 580 \<and> rh (paddle_rect (paddle s)) = 10 \<and>
      list_all (\<lambda>p. rw (pu_rect p) = 20 \<and> rh (pu_rect p) = 20) (power_ups s) \<and>
      lookup_user (current_user s) (users s) \<noteq> None)"

text \<open>
  Before the login, in the main menu, there is no current user yet; the
  invariant of the main loop asks for the user only outside the main menu.
\<close>

definition session_inv :: "game \<Rightarrow> bool" where
  "session_inv s =
     (ry (paddle_rect (paddle s)) = 580 \<and> rh (paddle_rect (paddle s)) = 10 \<and>
      list_all (\<lambda>p. rw (pu_rect p) = 20 \<and> rh (pu_rect p) = 20) (power_ups s) \<and>
      (game_state s = MAIN_MENU \<or> lookup_user (current_user s) (users s) \<noteq> None))"

text \<open>
  The overlap test of two rectangles, written out: both have a size other than
  zero and their extents overlap properly on both axes.
\<close>

abbreviation rects_overlap :: "rect \<Rightarrow> rect \<Rightarrow> bool" where
  "rects_overlap a b \<equiv>
     rw a \<noteq> 0 \<and> rh a \<noteq> 0 \<and> rw b \<noteq> 0 \<and> rh b \<noteq> 0 \<and>
     min (rx a) (rx a + rw a) < max (rx b) (rx b + rw b) \<and>
     min (ry a) (ry a + rh a) < max (ry b) (ry b + rh b) \<and>
     min (rx b) (rx b + rw b) < max (rx a + rw a) (rx a) \<and>
     min (ry b) (ry b + rh b) < max (ry a + rh a) (ry a)"

text \<open>
  The rectangle of the ball after \<^verbatim>\<open>Ball.move\<close>, and the bricks that this
  rectangle does not touch.
\<close>

abbreviation moved_ball_rect :: "game \<Rightarrow> rect" where
  "moved_ball_rect s \<equiv> move_ip (ball_dx (ball s)) (ball_dy (ball s)) (ball_rect (ball s))"

abbreviation surviving_bricks :: "game \<Rightarrow> brick list" where
  "surviving_bricks s \<equiv>
     filter (\<lambda>b. \<not> colliderect (moved_ball_rect s) (brick_rect b)) (bricks s)"

section \<open>Concrete inputs\<close>

text \<open>
  A paddle widened by \<^const>\<open>increase_paddle_size\<close> that has been moved to the right
  33 times: \<open>350 + 33 \<cdot> 9 = 647\<close>.
\<close>

definition wide_paddle :: paddle where
  "wide_paddle = \<lparr>paddle_rect = Rect 647 580 150 10\<rparr>"

definition test_users :: users where
  "test_users = [''bob'' \<mapsto> \<lparr>password = sha256_hexdigest ''secret'', high_score = 1000\<rparr>]"

definition zero_rng :: rng where
  "zero_rng = (\<lambda>n. 0)"

text \<open>
  A session of user \<open>bob\<close> late in level 1: one brick is left (row 4, column 4),
  49 bricks have been scored, and the ball is just below that brick, moving up.
\<close>

definition last_brick_game :: game where
  "last_brick_game =
     (BreakoutGame_init test_users zero_rng)
       \<lparr>game_state := GAME_RUNNING, logged_in := True, current_user := Some ''bob'',
        current_high_score := Some 1000,
        bricks := [Brick_init 330 130], stage_bricks := 1, score := 4900,
        ball := Ball_init\<lparr>ball_rect := Rect 390 150 20 20\<rparr>\<rparr>"

definition no_keys :: tick_input where
  "no_keys = \<lparr>keys_left = False, keys_right = False, ticks = 1000\<rparr>"

text \<open>
  The same session with one life left, two bricks left, and the ball about to
  pass the bottom of the screen left of the paddle.
\<close>

definition last_life_game :: game where
  "last_life_game =
     last_brick_game
       \<lparr>lives := 1, bricks := [Brick_init 330 130, Brick_init 10 10], stage_bricks := 2,
        score := 4800,
        ball := \<lparr>ball_rect = Rect 100 576 20 20, ball_dx = 5, ball_dy = 5, trail = []\<rparr>\<rparr>"

text \<open>
  The running game whose window has lost the focus; the trail of the ball holds
  one particle.
\<close>

definition unfocused_game :: game where
  "unfocused_game =
     last_brick_game
       \<lparr>focused := False,
        ball := \<lparr>ball_rect = Rect 390 300 20 20, ball_dx = 5, ball_dy = - 5,
                 trail = [Particle_init 400 310 zero_rng]\<rparr>\<rparr>"

text \<open>The main menu with a user name typed in and the password left empty.\<close>

definition half_filled_menu :: game where
  "half_filled_menu =
     (BreakoutGame_init test_users zero_rng)
       \<lparr>username_input := (TextInputBox_init 300 250 200 50)\<lparr>tb_text := ''bob''\<rparr>\<rparr>"

section \<open>The brick grid\<close>

lemma length_grid_positions: "length (grid_positions rows cols) = rows * cols"
  by (induction rows) (simp_all add: grid_positions_def)

lemma length_make_bricks: "length (fst (make_bricks rcs g)) = length rcs"
proof (induction rcs arbitrary: g)
  case Nil
  show ?case by simp
next
  case (Cons rc rcs)
  obtain b g' where c: "create_brick rc g = (b, g')" by (cases "create_brick rc g")
  obtain bs g'' where m: "make_bricks rcs g' = (bs, g'')" by (cases "make_bricks rcs g'")
  from Cons.IH [of g'] m have "length bs = length rcs" by simp
  with c m show ?case by simp
qed

lemma length_create_bricks: "length (fst (create_bricks rows cols g)) = nat rows * nat cols"
  by (simp add: create_bricks_def length_make_bricks length_grid_positions)

section \<open>The paddle stays on the screen (claim C1)\<close>

text \<open>
  With the width of a fresh paddle the guard of \<^const>\<open>Paddle_move\<close> keeps the left
  edge between 0 and \<open>800 - 100\<close>, whatever the requested displacement is.
\<close>

lemma Paddle_move_default_range:
  assumes "0 \<le> rect_left (paddle_rect p)" and "rect_left (paddle_rect p) \<le> 800 - 100"
  shows "0 \<le> rect_left (paddle_rect (Paddle_move d p)) \<and> rect_left (paddle_rect (Paddle_move d p)) \<le> 800 - 100"
  using assms by (simp add: Paddle_move_def rect_left_def move_ip_def py_int_def)

text \<open>
  The widened paddle used below is reached from the initial game by collecting
  \<^const>\<open>increase_paddle_size\<close> and pressing the right arrow key for 33 ticks.
\<close>

lemma Paddle_move_right_funpow:
  "0 < rx (paddle_rect p) \<Longrightarrow> rx (paddle_rect p) + 9 * int k < 700 \<Longrightarrow>
   (Paddle_move 9 ^^ k) p = p\<lparr>paddle_rect := (paddle_rect p)\<lparr>rx := rx (paddle_rect p) + 9 * int k\<rparr>\<rparr>"
proof (induction k)
  case 0
  show ?case by simp
next
  case (Suc k)
  let ?q = "p\<lparr>paddle_rect := (paddle_rect p)\<lparr>rx := rx (paddle_rect p) + 9 * int k\<rparr>\<rparr>"
  from Suc have "(Paddle_move 9 ^^ k) p = ?q"
    by simp
  then have "(Paddle_move 9 ^^ Suc k) p = Paddle_move 9 ?q"
    by simp
  also from Suc.prems have "Paddle_move 9 ?q =
      p\<lparr>paddle_rect := (paddle_rect p)\<lparr>rx := rx (paddle_rect p) + 9 * int (Suc k)\<rparr>\<rparr>"
    by (simp add: Paddle_move_def rect_left_def move_ip_def py_int_def)
  finally show ?case .
qed

lemma wide_paddle_reachable:
  "(Paddle_move 9 ^^ 33) (paddle (activate_power_up increase_paddle_size t (BreakoutGame_init us g))) = wide_paddle"
proof -
  let ?p = "paddle (activate_power_up increase_paddle_size t (BreakoutGame_init us g))"
  have p: "?p = \<lparr>paddle_rect = Rect 350 580 150 10\<rparr>"
    by (simp add: activate_power_up_def BreakoutGame_init_def Let_def Paddle_init_def Rect_def py_int_def)
  have "(Paddle_move 9 ^^ 33) ?p = ?p\<lparr>paddle_rect := (paddle_rect ?p)\<lparr>rx := rx (paddle_rect ?p) + 9 * int 33\<rparr>\<rparr>"
    by (rule Paddle_move_right_funpow) (simp_all add: p Rect_def)
  then show ?thesis by (simp add: p Rect_def wide_paddle_def)
qed

text \<open>
  Claim C1: after every move command the left edge of the paddle lies in
  \<open>[0, 800 - width]\<close>, also when a power-up has set the width to 1.5 times the
  default.  The guard of the source compares with the constant \<open>800 - 100\<close>
  although its comment speaks of the width of the paddle.  For the paddle of
  width 150 at 647 the command \<open>move(9)\<close> is carried out: the left edge becomes
  656, beyond \<open>800 - 150 = 650\<close>, and the right edge 806 is off the screen.
\<close>

theorem Paddle_move_wide_leaves_range:
  "rw (paddle_rect (Paddle_move 9 wide_paddle)) = 150 \<and>
   rect_left (paddle_rect (Paddle_move 9 wide_paddle)) = 656 \<and>
   800 - rw (paddle_rect (Paddle_move 9 wide_paddle)) < rect_left (paddle_rect (Paddle_move 9 wide_paddle)) \<and>
   rect_right (paddle_rect (Paddle_move 9 wide_paddle)) = 806"
  by (simp add: Paddle_move_def wide_paddle_def Rect_def rect_left_def rect_right_def move_ip_def py_int_def)

section \<open>Reverting the slow ball (claim C2)\<close>

text \<open>
  When the two default speeds are positive, \<^const>\<open>reset_power_ups\<close> restores their
  magnitude and keeps the direction of the ball on each axis.  This is the
  situation of level 1, where the constructor has stored \<open>(5, 5)\<close>.
\<close>

lemma reset_power_ups_positive_defaults:
  assumes "active_power_up s = Some slow_ball" and "0 < default_ball_dx s" and "0 < default_ball_dy s"
    and "ball_dx (ball s) \<noteq> 0" and "ball_dy (ball s) \<noteq> 0"
  shows "ball_dx (ball (reset_power_ups s)) = sgn (ball_dx (ball s)) * \<bar>default_ball_dx s\<bar> \<and>
         ball_dy (ball (reset_power_ups s)) = sgn (ball_dy (ball s)) * \<bar>default_ball_dy s\<bar>"
  using assms by (simp add: reset_power_ups_def Let_def sgn_if)

lemma slow_ball_level1_reverts:
  "ball_dx (ball (reset_power_ups (activate_power_up slow_ball t (BreakoutGame_init us g)))) = 5 \<and>
   ball_dy (ball (reset_power_ups (activate_power_up slow_ball t (BreakoutGame_init us g)))) = - 5"
  by (simp add: BreakoutGame_init_def Let_def activate_power_up_def reset_power_ups_def Ball_init_def)

text \<open>
  Claim C2: at every level the reversion of \<^const>\<open>slow_ball\<close> restores the default
  magnitude on each axis and preserves the sign of the ball's velocity on that
  axis.  \<^const>\<open>level_up\<close> stores the velocity of the fresh ball, \<open>(5.5, -5.5)\<close>, as
  the default, sign included.  At level 2 a ball that moves up with \<open>dy = -3.85\<close>
  is therefore reverted to \<open>dy = -5.5 \<cdot> (-1) = 5.5\<close>: it moves down.
\<close>

theorem slow_ball_level2_reverts_flipped:
  "level (activate_power_up slow_ball t (level_up (BreakoutGame_init us g))) = 2 \<and>
   ball_dy (ball (activate_power_up slow_ball t (level_up (BreakoutGame_init us g)))) = - 3.85 \<and>
   default_ball_dy (activate_power_up slow_ball t (level_up (BreakoutGame_init us g))) = - 5.5 \<and>
   ball_dx (ball (reset_power_ups (activate_power_up slow_ball t (level_up (BreakoutGame_init us g))))) = 5.5 \<and>
   ball_dy (ball (reset_power_ups (activate_power_up slow_ball t (level_up (BreakoutGame_init us g))))) = 5.5"
  by (simp add: level_up_def BreakoutGame_init_def Let_def activate_power_up_def reset_power_ups_def Ball_init_def)

section \<open>The baseline without an active power-up (claim C3)\<close>

text \<open>A single effect that expires is reverted.\<close>

lemma single_power_up_reverts:
  "rw (paddle_rect (paddle (reset_power_ups (activate_power_up increase_paddle_size t (BreakoutGame_init us g))))) = 100"
  by (simp add: BreakoutGame_init_def Let_def activate_power_up_def reset_power_ups_def Paddle_init_def Rect_def py_int_def)

text \<open>
  Claim C3: whenever no power-up is active the paddle has its default width and
  the ball its default speed, also when a second power-up is collected while an
  effect is active.  The game remembers one active power-up only: collecting
  \<^const>\<open>extra_life\<close> while the paddle is widened replaces the record of the active
  effect, and the expiry then reverts nothing.  Afterwards no power-up is active
  and the paddle is 150 wide, the default being 100.
\<close>

theorem superseded_power_up_not_reverted:
  "active_power_up (reset_power_ups (activate_power_up extra_life t2
      (activate_power_up increase_paddle_size t1 (BreakoutGame_init us g)))) = None \<and>
   rw (paddle_rect (paddle (reset_power_ups (activate_power_up extra_life t2
      (activate_power_up increase_paddle_size t1 (BreakoutGame_init us g)))))) = 150 \<and>
   paddle_width_default (reset_power_ups (activate_power_up extra_life t2
      (activate_power_up increase_paddle_size t1 (BreakoutGame_init us g)))) = 100"
  by (simp add: BreakoutGame_init_def Let_def activate_power_up_def reset_power_ups_def Paddle_init_def Rect_def py_int_def)

section \<open>Level-up (claim C5)\<close>

text \<open>In a fresh session clearing level 1 gives what the claim says.\<close>

lemma level_up_fresh_session:
  "level (level_up (BreakoutGame_init us g)) = 2 \<and>
   row_range (level_up (BreakoutGame_init us g)) = 6 \<and>
   length (bricks (level_up (BreakoutGame_init us g))) = 60 \<and>
   ball_dx (ball (level_up (BreakoutGame_init us g))) = 5 * 1.1 \<and>
   ball_dy (ball (level_up (BreakoutGame_init us g))) = - 5 * 1.1 \<and>
   game_state (level_up (BreakoutGame_init us g)) = GAME_RUNNING"
  by (simp add: level_up_def BreakoutGame_init_def Let_def length_create_bricks Ball_init_def)

text \<open>
  Claim C5: clearing all bricks at level 1 gives level 2, six rows and a grid of
  60 bricks, also in a session restarted after a game over.  \<^const>\<open>reset_game\<close>
  sets the level back to 1 and builds the grid of five rows, but it leaves
  \<^const>\<open>row_range\<close> as it is.  In a session that had reached level 2 before the
  game over, clearing level 1 again gives seven rows and 70 bricks.
\<close>

theorem level_up_after_restart:
  "level (reset_game (level_up (BreakoutGame_init us g))) = 1 \<and>
   length (bricks (reset_game (level_up (BreakoutGame_init us g)))) = 50 \<and>
   row_range (reset_game (level_up (BreakoutGame_init us g))) = 6 \<and>
   level (level_up (reset_game (level_up (BreakoutGame_init us g)))) = 2 \<and>
   row_range (level_up (reset_game (level_up (BreakoutGame_init us g)))) = 7 \<and>
   length (bricks (level_up (reset_game (level_up (BreakoutGame_init us g))))) = 70"
  by (simp add: level_up_def reset_game_def BreakoutGame_init_def Let_def length_create_bricks length_grid_positions)

section \<open>Empty credentials (claim C10)\<close>

text \<open>
  Claim C10: a login or registration attempt whose trimmed user name or trimmed
  password is empty is rejected with a message, changes nothing else, and
  clears both input fields.  In the source the branch for empty input only
  prints the message; the theorem shows that both methods return the state with
  the message appended and nothing else changed, so the input fields keep
  their text.
\<close>

theorem empty_credentials_fields_kept:
  assumes "strip (tb_text (username_input s)) = [] \<or> strip (pb_text (password_input s)) = []"
  shows "login_user s = s\<lparr>console := console s @ [Msg_cannot_be_empty]\<rparr> \<and>
         register_user s = s\<lparr>console := console s @ [Msg_cannot_be_empty]\<rparr>"
  using assms by (auto simp add: login_user_def register_user_def Let_def)

theorem empty_credentials_fields_kept_witness:
  "strip (pb_text (password_input half_filled_menu)) = [] \<and>
   tb_text (username_input (login_user half_filled_menu)) = ''bob'' \<and>
   tb_text (username_input (register_user half_filled_menu)) = ''bob''"
proof -
  have h: "strip (pb_text (password_input half_filled_menu)) = []"
    by (simp add: half_filled_menu_def BreakoutGame_init_def Let_def PassTextInputBox_init_def strip_def)
  have t: "tb_text (username_input half_filled_menu) = ''bob''"
    by (simp add: half_filled_menu_def)
  from empty_credentials_fields_kept [of half_filled_menu] h
  have "login_user half_filled_menu = half_filled_menu\<lparr>console := console half_filled_menu @ [Msg_cannot_be_empty]\<rparr>"
    and "register_user half_filled_menu = half_filled_menu\<lparr>console := console half_filled_menu @ [Msg_cannot_be_empty]\<rparr>"
    by simp_all
  with h t show ?thesis by simp
qed

section \<open>The collision pass over the bricks (claim C6)\<close>

lemma random_random_range: "0 \<le> random_random u \<and> random_random u < 1"
  by (simp add: random_random_def frac_lt_1)

lemma random_randint_range:
  assumes "a \<le> b"
  shows "a \<le> random_randint a b u \<and> random_randint a b u \<le> b"
proof -
  let ?n = "real_of_int (b - a + 1)"
  from assms have n: "0 < ?n" by simp
  have r: "0 \<le> random_random u" "random_random u < 1"
    using random_random_range by simp_all
  from r n have "0 \<le> random_random u * ?n" by simp
  then have lo: "0 \<le> \<lfloor>random_random u * ?n\<rfloor>" by simp
  from r n have "random_random u * ?n < 1 * ?n"
    by (intro mult_strict_right_mono) simp_all
  then have "random_random u * ?n < real_of_int (b - a + 1)" by simp
  then have hi: "\<lfloor>random_random u * ?n\<rfloor> < b - a + 1"
    by (simp only: floor_less_iff)
  from lo hi show ?thesis by (simp add: random_randint_def)
qed

lemma num_fragments_range: "4 \<le> num_fragments g \<and> num_fragments g \<le> 10"
proof -
  have "4 \<le> random_randint 4 10 (g 50) \<and> random_randint 4 10 (g 50) \<le> 10"
    by (rule random_randint_range) simp
  then show ?thesis unfolding num_fragments_def by linarith
qed

lemma length_spawn_particles: "length (spawn_particles n x y g) = n"
  by (simp add: spawn_particles_def)

lemma spawn_particles_at:
  "list_all (\<lambda>p. pt_x p = of_int x \<and> pt_y p = of_int y \<and> pt_lifetime p = 50) (spawn_particles n x y g)"
  by (simp add: spawn_particles_def list_all_iff Particle_init_def)

lemma length_spawn_fragments: "length (spawn_fragments n b g) = n"
  by (simp add: spawn_fragments_def)

lemma spawn_fragments_at:
  "list_all (\<lambda>f. bf_x f = of_int (rx (brick_rect b)) \<and> bf_y f = of_int (ry (brick_rect b)))
     (spawn_fragments n b g)"
  by (simp add: spawn_fragments_def list_all_iff break_into_fragments_def)

lemma list_remove_middle:
  assumes "b \<notin> set kept"
  shows "list_remove b (kept @ b # bs) = Inr (kept @ bs)"
  using assms by (simp add: list_remove_def remove1_append)

lemma bricks_loop_effect:
  assumes "bricks s = kept @ bs"
    and "ball_rect (ball s) = r"
    and "\<forall>b\<in>set kept. \<not> colliderect r (brick_rect b)"
  shows "\<exists>s' pss fss. bricks_loop bs s = Inr s' \<and>
      ball_rect (ball s') = r \<and>
      ball_dy (ball s') = (- 1) ^ length (filter (\<lambda>b. colliderect r (brick_rect b)) bs) * ball_dy (ball s) \<and>
      bricks s' = kept @ filter (\<lambda>b. \<not> colliderect r (brick_rect b)) bs \<and>
      power_ups s' = power_ups s @ concat (map (\<lambda>b. case brick_power_up_type b of None \<Rightarrow> []
          | Some t \<Rightarrow> [PowerUp_init (rx (brick_rect b) + 25) (ry (brick_rect b)) t])
          (filter (\<lambda>b. colliderect r (brick_rect b)) bs)) \<and>
      particles s' = particles s @ concat pss \<and>
      list_all2 (\<lambda>ps b. length ps = 10 \<and>
          list_all (\<lambda>p. pt_x p = of_int (rect_centerx (brick_rect b)) \<and>
                        pt_y p = of_int (rect_centery (brick_rect b)) \<and> pt_lifetime p = 50) ps)
        pss (filter (\<lambda>b. colliderect r (brick_rect b)) bs) \<and>
      fragments s' = fragments s @ concat fss \<and>
      list_all2 (\<lambda>fs b. 4 \<le> length fs \<and> length fs \<le> 10 \<and>
          list_all (\<lambda>f. bf_x f = of_int (rx (brick_rect b)) \<and> bf_y f = of_int (ry (brick_rect b))) fs)
        fss (filter (\<lambda>b. colliderect r (brick_rect b)) bs)"
  using assms
proof (induction bs arbitrary: s kept)
  case Nil
  then show ?case by simp
next
  case (Cons b bs)
  show ?case
  proof (cases "colliderect r (brick_rect b)")
    case False
    from Cons.prems False have inv: "bricks s = (kept @ [b]) @ bs"
      "\<forall>b\<in>set (kept @ [b]). \<not> colliderect r (brick_rect b)"
      by simp_all
    from Cons.IH [OF inv(1) Cons.prems(2) inv(2)] obtain s' pss fss where
      "bricks_loop bs s = Inr s' \<and>
      ball_rect (ball s') = r \<and>
      ball_dy (ball s') = (- 1) ^ length (filter (\<lambda>b. colliderect r (brick_rect b)) bs) * ball_dy (ball s) \<and>
      bricks s' = (kept @ [b]) @ filter (\<lambda>b. \<not> colliderect r (brick_rect b)) bs \<and>
      power_ups s' = power_ups s @ concat (map (\<lambda>b. case brick_power_up_type b of None \<Rightarrow> []
          | Some t \<Rightarrow> [PowerUp_init (rx (brick_rect b) + 25) (ry (brick_rect b)) t])
          (filter (\<lambda>b. colliderect r (brick_rect b)) bs)) \<and>
      particles s' = particles s @ concat pss \<and>
      list_all2 (\<lambda>ps b. length ps = 10 \<and>
          list_all (\<lambda>p. pt_x p = of_int (rect_centerx (brick_rect b)) \<and>
                        pt_y p = of_int (rect_centery (brick_rect b)) \<and> pt_lifetime p = 50) ps)
        pss (filter (\<lambda>b. colliderect r (brick_rect b)) bs) \<and>
      fragments s' = fragments s @ concat fss \<and>
      list_all2 (\<lambda>fs b. 4 \<le> length fs \<and> length fs \<le> 10 \<and>
          list_all (\<lambda>f. bf_x f = of_int (rx (brick_rect b)) \<and> bf_y f = of_int (ry (brick_rect b))) fs)
        fss (filter (\<lambda>b. colliderect r (brick_rect b)) bs)"
      by blast
    with False Cons.prems(2) show ?thesis
      by (intro exI [of _ s'] exI [of _ pss] exI [of _ fss]) simp
  next
    case True
    with Cons.prems have nin: "b \<notin> set kept" by blast
    let ?s1 = "brick_hit b (kept @ bs) s"
    let ?ps = "spawn_particles 10 (rect_centerx (brick_rect b)) (rect_centery (brick_rect b)) (rng s)"
    let ?fs = "spawn_fragments (num_fragments (rng s)) b (rng_drop 51 (rng s))"
    from Cons.prems(1) nin have rm: "list_remove b (bricks s) = Inr (kept @ bs)"
      by (simp add: list_remove_middle)
    with True Cons.prems(2) have step: "bricks_loop (b # bs) s = bricks_loop bs ?s1"
      by simp
    have s1: "bricks ?s1 = kept @ bs" "ball_rect (ball ?s1) = r"
      "ball_dy (ball ?s1) = - ball_dy (ball s)"
      "power_ups ?s1 = power_ups s @ (case brick_power_up_type b of None \<Rightarrow> []
          | Some t \<Rightarrow> [PowerUp_init (rx (brick_rect b) + 25) (ry (brick_rect b)) t])"
      "particles ?s1 = particles s @ ?ps"
      "fragments ?s1 = fragments s @ ?fs"
      using Cons.prems(2) by (simp_all add: brick_hit_def split: option.splits)
    from Cons.IH [OF s1(1) s1(2) Cons.prems(3)] obtain s' pss fss where r:
      "bricks_loop bs ?s1 = Inr s'"
      "ball_rect (ball s') = r"
      "ball_dy (ball s') = (- 1) ^ length (filter (\<lambda>b. colliderect r (brick_rect b)) bs) * ball_dy (ball ?s1)"
      "bricks s' = kept @ filter (\<lambda>b. \<not> colliderect r (brick_rect b)) bs"
      "power_ups s' = power_ups ?s1 @ concat (map (\<lambda>b. case brick_power_up_type b of None \<Rightarrow> []
          | Some t \<Rightarrow> [PowerUp_init (rx (brick_rect b) + 25) (ry (brick_rect b)) t])
          (filter (\<lambda>b. colliderect r (brick_rect b)) bs))"
      "particles s' = particles ?s1 @ concat pss"
      "list_all2 (\<lambda>ps b. length ps = 10 \<and>
          list_all (\<lambda>p. pt_x p = of_int (rect_centerx (brick_rect b)) \<and>
                        pt_y p = of_int (rect_centery (brick_rect b)) \<and> pt_lifetime p = 50) ps)
        pss (filter (\<lambda>b. colliderect r (brick_rect b)) bs)"
      "fragments s' = fragments ?s1 @ concat fss"
      "list_all2 (\<lambda>fs b. 4 \<le> length fs \<and> length fs \<le> 10 \<and>
          list_all (\<lambda>f. bf_x f = of_int (rx (brick_rect b)) \<and> bf_y f = of_int (ry (brick_rect b))) fs)
        fss (filter (\<lambda>b. colliderect r (brick_rect b)) bs)"
      by blast
    have ps: "length ?ps = 10 \<and>
          list_all (\<lambda>p. pt_x p = of_int (rect_centerx (brick_rect b)) \<and>
                        pt_y p = of_int (rect_centery (brick_rect b)) \<and> pt_lifetime p = 50) ?ps"
      by (simp add: length_spawn_particles spawn_particles_at)
    have fs: "4 \<le> length ?fs \<and> length ?fs \<le> 10 \<and>
          list_all (\<lambda>f. bf_x f = of_int (rx (brick_rect b)) \<and> bf_y f = of_int (ry (brick_rect b))) ?fs"
      by (simp add: length_spawn_fragments spawn_fragments_at num_fragments_range)
    show ?thesis
      apply (intro exI [of _ s'] exI [of _ "?ps # pss"] exI [of _ "?fs # fss"])
      using True step r s1 ps fs
      apply (simp del: bricks_loop.simps)
      done
  qed
qed

text \<open>
  Claim C6: in the collision pass, for every live brick whose rectangle
  intersects the rectangle of the ball, the vertical speed of the ball is
  negated once (so \<open>k\<close> hits negate it \<open>k\<close> times), the brick is removed, a
  power-up of the brick's tag is created at \<open>(brick.x + 25, brick.y)\<close> exactly
  when the brick has a tag, ten particles are created at the centre of the
  brick, and between 4 and 10 fragments are created (at the position of the
  brick).  The pass always returns.  The statement writes everything out: the
  overlap test, the four attributes of a dropped power-up (position, tag and
  its rectangle of 20 by 20), and the centre of the brick with the truncating
  halves of its width and height.  \<open>pss\<close> and \<open>fss\<close> are the groups of particles
  and of fragments, one group for each brick that was hit, in the order of the
  bricks.
\<close>

theorem check_collision_with_bricks_effect:
  "\<exists>s' pss fss. check_collision_with_bricks s = Inr s' \<and>
      ball_dy (ball s') =
        (- 1) ^ length (filter (\<lambda>b. rects_overlap (ball_rect (ball s)) (brick_rect b)) (bricks s))
          * ball_dy (ball s) \<and>
      bricks s' = filter (\<lambda>b. \<not> rects_overlap (ball_rect (ball s)) (brick_rect b)) (bricks s) \<and>
      power_ups s' = power_ups s @ concat (map (\<lambda>b. case brick_power_up_type b of None \<Rightarrow> []
          | Some t \<Rightarrow> [\<lparr>pu_x = rx (brick_rect b) + 25, pu_y = ry (brick_rect b), pu_type = t,
                        pu_rect = \<lparr>rx = rx (brick_rect b) + 25, ry = ry (brick_rect b),
                                   rw = 20, rh = 20\<rparr>\<rparr>])
          (filter (\<lambda>b. rects_overlap (ball_rect (ball s)) (brick_rect b)) (bricks s))) \<and>
      particles s' = particles s @ concat pss \<and>
      list_all2 (\<lambda>ps b. length ps = 10 \<and>
          list_all (\<lambda>p.
              pt_x p = of_int (rx (brick_rect b) +
                 (if 0 \<le> rw (brick_rect b) then rw (brick_rect b) div 2
                  else - ((- rw (brick_rect b)) div 2))) \<and>
              pt_y p = of_int (ry (brick_rect b) +
                 (if 0 \<le> rh (brick_rect b) then rh (brick_rect b) div 2
                  else - ((- rh (brick_rect b)) div 2))) \<and>
              pt_lifetime p = 50) ps)
        pss (filter (\<lambda>b. rects_overlap (ball_rect (ball s)) (brick_rect b)) (bricks s)) \<and>
      fragments s' = fragments s @ concat fss \<and>
      list_all2 (\<lambda>fs b. 4 \<le> length fs \<and> length fs \<le> 10 \<and>
          list_all (\<lambda>f. bf_x f = of_int (rx (brick_rect b)) \<and> bf_y f = of_int (ry (brick_rect b))) fs)
        fss (filter (\<lambda>b. rects_overlap (ball_rect (ball s)) (brick_rect b)) (bricks s))"
proof -
  have "bricks s = [] @ bricks s" by simp
  moreover have "ball_rect (ball s) = ball_rect (ball s)" ..
  moreover have "\<forall>b\<in>set []. \<not> colliderect (ball_rect (ball s)) (brick_rect b)" by simp
  ultimately obtain s' pss fss where
    "bricks_loop (bricks s) s = Inr s' \<and>
      ball_rect (ball s') = ball_rect (ball s) \<and>
      ball_dy (ball s') =
        (- 1) ^ length (filter (\<lambda>b. colliderect (ball_rect (ball s)) (brick_rect b)) (bricks s))
          * ball_dy (ball s) \<and>
      bricks s' = [] @ filter (\<lambda>b. \<not> colliderect (ball_rect (ball s)) (brick_rect b)) (bricks s) \<and>
      power_ups s' = power_ups s @ concat (map (\<lambda>b. case brick_power_up_type b of None \<Rightarrow> []
          | Some t \<Rightarrow> [PowerUp_init (rx (brick_rect b) + 25) (ry (brick_rect b)) t])
          (filter (\<lambda>b. colliderect (ball_rect (ball s)) (brick_rect b)) (bricks s))) \<and>
      particles s' = particles s @ concat pss \<and>
      list_all2 (\<lambda>ps b. length ps = 10 \<and>
          list_all (\<lambda>p. pt_x p = of_int (rect_centerx (brick_rect b)) \<and>
                        pt_y p = of_int (rect_centery (brick_rect b)) \<and> pt_lifetime p = 50) ps)
        pss (filter (\<lambda>b. colliderect (ball_rect (ball s)) (brick_rect b)) (bricks s)) \<and>
      fragments s' = fragments s @ concat fss \<and>
      list_all2 (\<lambda>fs b. 4 \<le> length fs \<and> length fs \<le> 10 \<and>
          list_all (\<lambda>f. bf_x f = of_int (rx (brick_rect b)) \<and> bf_y f = of_int (ry (brick_rect b))) fs)
        fss (filter (\<lambda>b. colliderect (ball_rect (ball s)) (brick_rect b)) (bricks s))"
    using bricks_loop_effect [of s "[]" "bricks s" "ball_rect (ball s)"] by blast
  then have "check_collision_with_bricks s = Inr s' \<and>
      ball_dy (ball s') =
        (- 1) ^ length (filter (\<lambda>b. rects_overlap (ball_rect (ball s)) (brick_rect b)) (bricks s))
          * ball_dy (ball s) \<and>
      bricks s' = filter (\<lambda>b. \<not> rects_overlap (ball_rect (ball s)) (brick_rect b)) (bricks s) \<and>
      power_ups s' = power_ups s @ concat (map (\<lambda>b. case brick_power_up_type b of None \<Rightarrow> []
          | Some t \<Rightarrow> [\<lparr>pu_x = rx (brick_rect b) + 25, pu_y = ry (brick_rect b), pu_type = t,
                        pu_rect = \<lparr>rx = rx (brick_rect b) + 25, ry = ry (brick_rect b),
                                   rw = 20, rh = 20\<rparr>\<rparr>])
          (filter (\<lambda>b. rects_overlap (ball_rect (ball s)) (brick_rect b)) (bricks s))) \<and>
      particles s' = particles s @ concat pss \<and>
      list_all2 (\<lambda>ps b. length ps = 10 \<and>
          list_all (\<lambda>p.
              pt_x p = of_int (rx (brick_rect b) +
                 (if 0 \<le> rw (brick_rect b) then rw (brick_rect b) div 2
                  else - ((- rw (brick_rect b)) div 2))) \<and>
              pt_y p = of_int (ry (brick_rect b) +
                 (if 0 \<le> rh (brick_rect b) then rh (brick_rect b) div 2
                  else - ((- rh (brick_rect b)) div 2))) \<and>
              pt_lifetime p = 50) ps)
        pss (filter (\<lambda>b. rects_overlap (ball_rect (ball s)) (brick_rect b)) (bricks s)) \<and>
      fragments s' = fragments s @ concat fss \<and>
      list_all2 (\<lambda>fs b. 4 \<le> length fs \<and> length fs \<le> 10 \<and>
          list_all (\<lambda>f. bf_x f = of_int (rx (brick_rect b)) \<and> bf_y f = of_int (ry (brick_rect b))) fs)
        fss (filter (\<lambda>b. rects_overlap (ball_rect (ball s)) (brick_rect b)) (bricks s))"
    unfolding check_collision_with_bricks_def colliderect_def PowerUp_init_def Rect_def
      rect_centerx_def rect_centery_def c_half_def
    by (simp only: append_Nil)
  then show ?thesis by blast
qed

section \<open>What the steps of a tick leave unchanged\<close>

lemma Paddle_move_row:
  "ry (paddle_rect (Paddle_move d p)) = ry (paddle_rect p) \<and>
   rh (paddle_rect (Paddle_move d p)) = rh (paddle_rect p) \<and>
   rw (paddle_rect (Paddle_move d p)) = rw (paddle_rect p)"
  by (simp add: Paddle_move_def move_ip_def py_int_def)

lemma tick_ball_fields:
  "paddle (tick_ball s) = paddle s"
  "bricks (tick_ball s) = bricks s"
  "ball_rect (ball (tick_ball s)) = move_ip (ball_dx (ball s)) (ball_dy (ball s)) (ball_rect (ball s))"
  "power_ups (tick_ball s) = power_ups s"
  "level (tick_ball s) = level s"
  "score (tick_ball s) = score s"
  "lives (tick_ball s) = lives s"
  "stage_bricks (tick_ball s) = stage_bricks s"
  "row_range (tick_ball s) = row_range s"
  "users (tick_ball s) = users s"
  "current_user (tick_ball s) = current_user s"
  "game_state (tick_ball s) = game_state s"
  by (simp_all add: tick_ball_def Ball_move_def Ball_check_collision_with_walls_def Let_def)

lemma tick_paddle_fields:
  "ry (paddle_rect (paddle (tick_paddle inp s))) = ry (paddle_rect (paddle s))"
  "rh (paddle_rect (paddle (tick_paddle inp s))) = rh (paddle_rect (paddle s))"
  "bricks (tick_paddle inp s) = bricks s"
  "ball (tick_paddle inp s) = ball s"
  "power_ups (tick_paddle inp s) = power_ups s"
  "level (tick_paddle inp s) = level s"
  "score (tick_paddle inp s) = score s"
  "lives (tick_paddle inp s) = lives s"
  "stage_bricks (tick_paddle inp s) = stage_bricks s"
  "row_range (tick_paddle inp s) = row_range s"
  "users (tick_paddle inp s) = users s"
  "current_user (tick_paddle inp s) = current_user s"
  "game_state (tick_paddle inp s) = game_state s"
  by (simp_all add: tick_paddle_def Let_def Paddle_move_row)

lemma tick_stars_fields:
  "paddle (tick_stars s) = paddle s"
  "bricks (tick_stars s) = bricks s"
  "ball (tick_stars s) = ball s"
  "power_ups (tick_stars s) = power_ups s"
  "level (tick_stars s) = level s"
  "score (tick_stars s) = score s"
  "lives (tick_stars s) = lives s"
  "stage_bricks (tick_stars s) = stage_bricks s"
  "row_range (tick_stars s) = row_range s"
  "users (tick_stars s) = users s"
  "current_user (tick_stars s) = current_user s"
  "game_state (tick_stars s) = game_state s"
  by (simp_all add: tick_stars_def split: prod.splits)

lemma Ball_check_collision_with_paddle_fields:
  "paddle (Ball_check_collision_with_paddle s) = paddle s"
  "bricks (Ball_check_collision_with_paddle s) = bricks s"
  "ball_rect (ball (Ball_check_collision_with_paddle s)) = ball_rect (ball s)"
  "power_ups (Ball_check_collision_with_paddle s) = power_ups s"
  "level (Ball_check_collision_with_paddle s) = level s"
  "score (Ball_check_collision_with_paddle s) = score s"
  "lives (Ball_check_collision_with_paddle s) = lives s"
  "stage_bricks (Ball_check_collision_with_paddle s) = stage_bricks s"
  "row_range (Ball_check_collision_with_paddle s) = row_range s"
  "users (Ball_check_collision_with_paddle s) = users s"
  "current_user (Ball_check_collision_with_paddle s) = current_user s"
  "game_state (Ball_check_collision_with_paddle s) = game_state s"
  by (simp_all add: Ball_check_collision_with_paddle_def)

lemma brick_hit_fields:
  "paddle (brick_hit b rest s) = paddle s"
  "level (brick_hit b rest s) = level s"
  "score (brick_hit b rest s) = score s"
  "lives (brick_hit b rest s) = lives s"
  "stage_bricks (brick_hit b rest s) = stage_bricks s"
  "row_range (brick_hit b rest s) = row_range s"
  "users (brick_hit b rest s) = users s"
  "current_user (brick_hit b rest s) = current_user s"
  "game_state (brick_hit b rest s) = game_state s"
  by (simp_all add: brick_hit_def)

lemma bricks_loop_fields:
  assumes "bricks_loop bs s = Inr s'"
  shows "paddle s' = paddle s \<and> level s' = level s \<and> score s' = score s \<and> lives s' = lives s \<and>
         stage_bricks s' = stage_bricks s \<and> row_range s' = row_range s \<and> users s' = users s \<and>
         current_user s' = current_user s \<and> game_state s' = game_state s"
  using assms
proof (induction bs arbitrary: s)
  case Nil
  then show ?case by simp
next
  case (Cons b bs)
  show ?case
  proof (cases "colliderect (ball_rect (ball s)) (brick_rect b)")
    case False
    with Cons show ?thesis by simp
  next
    case True
    with Cons.prems obtain rest where
      "list_remove b (bricks s) = Inr rest" "bricks_loop bs (brick_hit b rest s) = Inr s'"
      by (auto split: sum.splits)
    from Cons.IH [OF this(2)] show ?thesis by (simp add: brick_hit_fields)
  qed
qed

lemma activate_power_up_fields:
  "ry (paddle_rect (paddle (activate_power_up t now s))) = ry (paddle_rect (paddle s))"
  "rh (paddle_rect (paddle (activate_power_up t now s))) = rh (paddle_rect (paddle s))"
  "bricks (activate_power_up t now s) = bricks s"
  "power_ups (activate_power_up t now s) = power_ups s"
  "level (activate_power_up t now s) = level s"
  "score (activate_power_up t now s) = score s"
  "stage_bricks (activate_power_up t now s) = stage_bricks s"
  "row_range (activate_power_up t now s) = row_range s"
  "users (activate_power_up t now s) = users s"
  "current_user (activate_power_up t now s) = current_user s"
  "game_state (activate_power_up t now s) = game_state s"
  by (cases t; simp add: activate_power_up_def)+

lemma reset_power_ups_fields:
  "ry (paddle_rect (paddle (reset_power_ups s))) = ry (paddle_rect (paddle s))"
  "rh (paddle_rect (paddle (reset_power_ups s))) = rh (paddle_rect (paddle s))"
  "bricks (reset_power_ups s) = bricks s"
  "power_ups (reset_power_ups s) = power_ups s"
  "level (reset_power_ups s) = level s"
  "score (reset_power_ups s) = score s"
  "stage_bricks (reset_power_ups s) = stage_bricks s"
  "row_range (reset_power_ups s) = row_range s"
  "users (reset_power_ups s) = users s"
  "current_user (reset_power_ups s) = current_user s"
  "game_state (reset_power_ups s) = game_state s"
  by (simp_all add: reset_power_ups_def Let_def)

lemma tick_expiry_fields:
  "ry (paddle_rect (paddle (tick_expiry inp s))) = ry (paddle_rect (paddle s))"
  "rh (paddle_rect (paddle (tick_expiry inp s))) = rh (paddle_rect (paddle s))"
  "bricks (tick_expiry inp s) = bricks s"
  "power_ups (tick_expiry inp s) = power_ups s"
  "level (tick_expiry inp s) = level s"
  "score (tick_expiry inp s) = score s"
  "stage_bricks (tick_expiry inp s) = stage_bricks s"
  "row_range (tick_expiry inp s) = row_range s"
  "users (tick_expiry inp s) = users s"
  "current_user (tick_expiry inp s) = current_user s"
  "game_state (tick_expiry inp s) = game_state s"
  by (simp_all add: tick_expiry_def reset_power_ups_fields)

lemma no_touch_below_screen:
  assumes "ry b = 580" and "rh b = 10" and "rh a = 20" and "600 \<le> rect_top a"
  shows "\<not> colliderect a b"
  using assms by (simp add: colliderect_def rect_top_def)

lemma power_ups_loop_effect:
  assumes "ry (paddle_rect (paddle s)) = 580" and "rh (paddle_rect (paddle s)) = 10"
    and "list_all (\<lambda>p. rw (pu_rect p) = 20 \<and> rh (pu_rect p) = 20) ps"
    and "list_all (\<lambda>p. rw (pu_rect p) = 20 \<and> rh (pu_rect p) = 20) kept"
  shows "\<exists>kept' s'. power_ups_loop ps now kept s = Inr (kept', s') \<and>
     list_all (\<lambda>p. rw (pu_rect p) = 20 \<and> rh (pu_rect p) = 20) kept' \<and>
     ry (paddle_rect (paddle s')) = 580 \<and> rh (paddle_rect (paddle s')) = 10 \<and>
     bricks s' = bricks s \<and> level s' = level s \<and> score s' = score s \<and>
     stage_bricks s' = stage_bricks s \<and> row_range s' = row_range s \<and> users s' = users s \<and>
     current_user s' = current_user s \<and> game_state s' = game_state s"
  using assms
proof (induction ps arbitrary: s kept)
  case Nil
  then show ?case by simp
next
  case (Cons p ps)
  let ?p = "PowerUp_move p"
  from Cons.prems(3) have sz: "rw (pu_rect ?p) = 20" "rh (pu_rect ?p) = 20"
    and rest: "list_all (\<lambda>p. rw (pu_rect p) = 20 \<and> rh (pu_rect p) = 20) ps"
    by (simp_all add: PowerUp_move_def)
  show ?case
  proof (cases "colliderect (pu_rect ?p) (paddle_rect (paddle s))")
    case True
    with no_touch_below_screen [OF Cons.prems(1) Cons.prems(2) sz(2)]
    have top: "\<not> 600 \<le> rect_top (pu_rect ?p)" by blast
    let ?s1 = "activate_power_up (pu_type ?p) now s"
    have "ry (paddle_rect (paddle ?s1)) = 580" "rh (paddle_rect (paddle ?s1)) = 10"
      using Cons.prems(1,2) by (simp_all add: activate_power_up_fields)
    from Cons.IH [OF this rest Cons.prems(4)] obtain kept' s' where
      "power_ups_loop ps now kept ?s1 = Inr (kept', s') \<and>
       list_all (\<lambda>p. rw (pu_rect p) = 20 \<and> rh (pu_rect p) = 20) kept' \<and>
       ry (paddle_rect (paddle s')) = 580 \<and> rh (paddle_rect (paddle s')) = 10 \<and>
       bricks s' = bricks ?s1 \<and> level s' = level ?s1 \<and> score s' = score ?s1 \<and>
       stage_bricks s' = stage_bricks ?s1 \<and> row_range s' = row_range ?s1 \<and> users s' = users ?s1 \<and>
       current_user s' = current_user ?s1 \<and> game_state s' = game_state ?s1"
      by blast
    with True top show ?thesis
      by (intro exI [of _ kept'] exI [of _ s']) (simp add: Let_def activate_power_up_fields)
  next
    case False
    show ?thesis
    proof (cases "600 \<le> rect_top (pu_rect ?p)")
      case True
      from Cons.IH [OF Cons.prems(1) Cons.prems(2) rest Cons.prems(4)] False True
      show ?thesis by (simp add: Let_def)
    next
      case nt: False
      from Cons.prems(4) sz
      have "list_all (\<lambda>p. rw (pu_rect p) = 20 \<and> rh (pu_rect p) = 20) (kept @ [?p])"
        by simp
      from Cons.IH [OF Cons.prems(1) Cons.prems(2) rest this] False nt
      show ?thesis by (simp add: Let_def)
    qed
  qed
qed

lemma get_high_score_registered:
  assumes "lookup_user name us = Some r"
  shows "get_high_score name us = (Some (high_score r), [])"
  using assms by (simp add: get_high_score_def)

lemma update_high_score_effect:
  assumes "current_user s = Some u" and "users s u = Some r"
  shows "\<exists>s1. update_high_score s = Inr s1 \<and>
     users s1 = (if score s > high_score r then (users s)(u \<mapsto> r\<lparr>high_score := score s\<rparr>) else users s) \<and>
     current_user s1 = current_user s \<and> paddle s1 = paddle s \<and> power_ups s1 = power_ups s \<and>
     bricks s1 = bricks s \<and> level s1 = level s \<and> score s1 = score s \<and>
     stage_bricks s1 = stage_bricks s \<and> row_range s1 = row_range s \<and> game_state s1 = game_state s"
  using assms
  by (simp add: update_high_score_def get_high_score_def lookup_user_def auth_update_high_score_def)

lemma tick_life_lost_fields:
  "paddle (tick_life_lost s) = paddle s"
  "bricks (tick_life_lost s) = bricks s"
  "power_ups (tick_life_lost s) = power_ups s"
  "level (tick_life_lost s) = level s"
  "score (tick_life_lost s) = score s"
  "stage_bricks (tick_life_lost s) = stage_bricks s"
  "row_range (tick_life_lost s) = row_range s"
  "users (tick_life_lost s) = users s"
  "current_user (tick_life_lost s) = current_user s"
  "game_state (tick_life_lost s) = game_state s"
  by (simp_all add: tick_life_lost_def)

lemma tick_life_lost_game_over:
  "(600 \<le> rect_bottom (ball_rect (ball (tick_life_lost s))) \<and> lives (tick_life_lost s) = 1) =
   (600 \<le> rect_bottom (ball_rect (ball s)) \<and> lives s = 1)"
  by (simp add: tick_life_lost_def Ball_init_def Rect_def rect_bottom_def)

lemma tick_life_lost_new_record:
  "(600 \<le> rect_bottom (ball_rect (ball (tick_life_lost s))) \<and> lives (tick_life_lost s) = 1 \<and> P) =
   (600 \<le> rect_bottom (ball_rect (ball s)) \<and> lives s = 1 \<and> P)"
  using tick_life_lost_game_over [of s] by blast

lemma tick_game_over_effect:
  assumes "current_user s = Some u" and "users s u = Some r"
  shows "\<exists>s1. tick_game_over s = Inr s1 \<and>
     game_state s1 = (if 600 \<le> rect_bottom (ball_rect (ball s)) \<and> lives s = 1 then GAME_OVER else game_state s) \<and>
     users s1 = (if 600 \<le> rect_bottom (ball_rect (ball s)) \<and> lives s = 1 \<and> score s > high_score r
                 then (users s)(u \<mapsto> r\<lparr>high_score := score s\<rparr>) else users s) \<and>
     current_user s1 = current_user s \<and> paddle s1 = paddle s \<and> power_ups s1 = power_ups s \<and>
     bricks s1 = bricks s \<and> level s1 = level s \<and> score s1 = score s \<and>
     stage_bricks s1 = stage_bricks s \<and> row_range s1 = row_range s"
proof (cases "600 \<le> rect_bottom (ball_rect (ball s)) \<and> lives s = 1")
  case False
  then show ?thesis by (auto simp add: tick_game_over_def)
next
  case True
  from update_high_score_effect [OF assms] obtain s1 where s1:
    "update_high_score s = Inr s1"
    "users s1 = (if score s > high_score r then (users s)(u \<mapsto> r\<lparr>high_score := score s\<rparr>) else users s)"
    "current_user s1 = current_user s" "paddle s1 = paddle s" "power_ups s1 = power_ups s"
    "bricks s1 = bricks s" "level s1 = level s" "score s1 = score s"
    "stage_bricks s1 = stage_bricks s" "row_range s1 = row_range s" "game_state s1 = game_state s"
    by blast
  with True show ?thesis
    by (simp add: tick_game_over_def split: prod.splits)
qed

lemma tick_from_bottom_effect:
  assumes wf: "well_formed m" and u: "current_user m = Some u" "users m u = Some r"
  shows "\<exists>s'. tick_from_bottom inp m = Inr s' \<and>
     game_state s' = (if 600 \<le> rect_bottom (ball_rect (ball m)) \<and> lives m = 1 then GAME_OVER else game_state m) \<and>
     users s' = (if 600 \<le> rect_bottom (ball_rect (ball m)) \<and> lives m = 1 \<and> score m > high_score r
                 then (users m)(u \<mapsto> r\<lparr>high_score := score m\<rparr>) else users m) \<and>
     current_user s' = current_user m \<and>
     bricks s' = bricks m \<and> level s' = level m \<and> score s' = score m \<and>
     stage_bricks s' = stage_bricks m \<and> row_range s' = row_range m \<and> well_formed s'"
proof -
  let ?l = "tick_life_lost m"
  have ul: "current_user ?l = Some u" "users ?l u = Some r"
    using u by (simp_all add: tick_life_lost_fields)
  from tick_game_over_effect [OF ul] obtain s1 where s1:
    "tick_game_over ?l = Inr s1"
    "game_state s1 = (if 600 \<le> rect_bottom (ball_rect (ball ?l)) \<and> lives ?l = 1 then GAME_OVER else game_state ?l)"
    "users s1 = (if 600 \<le> rect_bottom (ball_rect (ball ?l)) \<and> lives ?l = 1 \<and> score ?l > high_score r
                 then (users ?l)(u \<mapsto> r\<lparr>high_score := score ?l\<rparr>) else users ?l)"
    "current_user s1 = current_user ?l" "paddle s1 = paddle ?l" "power_ups s1 = power_ups ?l"
    "bricks s1 = bricks ?l" "level s1 = level ?l" "score s1 = score ?l"
    "stage_bricks s1 = stage_bricks ?l" "row_range s1 = row_range ?l"
    by blast
  from wf s1(5,6) have p1: "ry (paddle_rect (paddle s1)) = 580" "rh (paddle_rect (paddle s1)) = 10"
    "list_all (\<lambda>p. rw (pu_rect p) = 20 \<and> rh (pu_rect p) = 20) (power_ups s1)"
    by (simp_all add: well_formed_def tick_life_lost_fields)
  have e: "list_all (\<lambda>p. rw (pu_rect p) = 20 \<and> rh (pu_rect p) = 20) ([] :: power_up list)" by simp
  from power_ups_loop_effect [OF p1 e, of "ticks inp"] obtain kept s2 where s2:
    "power_ups_loop (power_ups s1) (ticks inp) [] s1 = Inr (kept, s2)"
    "list_all (\<lambda>p. rw (pu_rect p) = 20 \<and> rh (pu_rect p) = 20) kept"
    "ry (paddle_rect (paddle s2)) = 580" "rh (paddle_rect (paddle s2)) = 10"
    "bricks s2 = bricks s1" "level s2 = level s1" "score s2 = score s1"
    "stage_bricks s2 = stage_bricks s1" "row_range s2 = row_range s1" "users s2 = users s1"
    "current_user s2 = current_user s1" "game_state s2 = game_state s1"
    by blast
  let ?s3 = "s2\<lparr>power_ups := kept\<rparr>"
  have t3: "tick_power_ups inp s1 = Inr ?s3"
    using s2(1) by (simp add: tick_power_ups_def)
  have res: "tick_from_bottom inp m = Inr (tick_expiry inp ?s3)"
    using s1(1) t3 by (simp add: tick_from_bottom_def)
  have users_dom: "lookup_user (current_user m) (users s1) \<noteq> None"
    using u s1(3) by (simp add: lookup_user_def tick_life_lost_fields)
  have wf': "well_formed (tick_expiry inp ?s3)"
    using s2 s1(4) users_dom
    by (simp add: well_formed_def tick_expiry_fields tick_life_lost_fields)
  show ?thesis
    apply (intro exI [of _ "tick_expiry inp ?s3"])
    using res wf' s1 s2
    apply (simp add: tick_expiry_fields tick_life_lost_fields tick_life_lost_game_over
        tick_life_lost_new_record)
    done
qed

lemma level_up_fields:
  "paddle (level_up s) = Paddle_init"
  "power_ups (level_up s) = power_ups s"
  "users (level_up s) = users s"
  "current_user (level_up s) = current_user s"
  "lives (level_up s) = lives s"
  "score (level_up s) = score s"
  "level (level_up s) = level s + 1"
  "row_range (level_up s) = min 10 (row_range s + 1)"
  "game_state (level_up s) = GAME_RUNNING"
  "ball_rect (ball (level_up s)) = ball_rect Ball_init"
  "stage_bricks (level_up s) = int (length (bricks (level_up s)))"
  by (simp_all add: level_up_def Let_def min_def)

lemma length_bricks_level_up:
  "length (bricks (level_up s)) = 10 * nat (min 10 (row_range s + 1))"
proof -
  have "(if 10 < row_range s + 1 then 10 else row_range s + 1) = min 10 (row_range s + 1)"
    by (simp add: min_def)
  then show ?thesis
    by (simp add: level_up_def Let_def length_create_bricks)
qed

lemma all_dropped_power_ups_sized:
  "list_all (\<lambda>p. rw (pu_rect p) = 20 \<and> rh (pu_rect p) = 20)
     (concat (map (\<lambda>b. case brick_power_up_type b of None \<Rightarrow> []
          | Some t \<Rightarrow> [PowerUp_init (rx (brick_rect b) + 25) (ry (brick_rect b)) t]) bs))"
  by (induction bs) (simp_all add: PowerUp_init_def Rect_def split: option.splits)

lemma tick_before_bottom_effect:
  "\<exists>m. tick_before_bottom inp s = Inr m \<and>
     lives m = lives s \<and> users m = users s \<and> current_user m = current_user s \<and>
     score m = (if int (length (surviving_bricks s)) < stage_bricks s
                then score s + (stage_bricks s - int (length (surviving_bricks s))) * (level s * 100)
                else score s) \<and>
     (if surviving_bricks s = []
      then length (bricks m) = 10 * nat (min 10 (row_range s + 1)) \<and> level m = level s + 1 \<and>
           row_range m = min 10 (row_range s + 1) \<and> game_state m = GAME_RUNNING \<and>
           ball_rect (ball m) = ball_rect Ball_init \<and> stage_bricks m = int (length (bricks m))
      else bricks m = surviving_bricks s \<and> level m = level s \<and> row_range m = row_range s \<and>
           game_state m = game_state s \<and> ball_rect (ball m) = moved_ball_rect s \<and>
           stage_bricks m = (if int (length (surviving_bricks s)) < stage_bricks s
                             then int (length (surviving_bricks s)) else stage_bricks s)) \<and>
     (if well_formed s then well_formed m else True)"
proof -
  let ?a = "Ball_check_collision_with_paddle (tick_stars (tick_paddle inp (tick_ball s)))"
  let ?r = "moved_ball_rect s"
  have a: "bricks ?a = bricks s" "ball_rect (ball ?a) = ?r" "power_ups ?a = power_ups s"
    "level ?a = level s" "score ?a = score s" "lives ?a = lives s"
    "stage_bricks ?a = stage_bricks s" "row_range ?a = row_range s" "users ?a = users s"
    "current_user ?a = current_user s" "game_state ?a = game_state s"
    "ry (paddle_rect (paddle ?a)) = ry (paddle_rect (paddle s))"
    "rh (paddle_rect (paddle ?a)) = rh (paddle_rect (paddle s))"
    by (simp_all add: Ball_check_collision_with_paddle_fields tick_stars_fields
        tick_paddle_fields tick_ball_fields)
  have "bricks ?a = [] @ bricks ?a" by simp
  moreover have "\<forall>b\<in>set []. \<not> colliderect ?r (brick_rect b)" by simp
  ultimately obtain s1 where s1: "bricks_loop (bricks ?a) ?a = Inr s1"
    "ball_rect (ball s1) = ?r"
    "bricks s1 = [] @ filter (\<lambda>b. \<not> colliderect ?r (brick_rect b)) (bricks ?a)"
    "power_ups s1 = power_ups ?a @ concat (map (\<lambda>b. case brick_power_up_type b of None \<Rightarrow> []
          | Some t \<Rightarrow> [PowerUp_init (rx (brick_rect b) + 25) (ry (brick_rect b)) t])
          (filter (\<lambda>b. colliderect ?r (brick_rect b)) (bricks ?a)))"
    using bricks_loop_effect [of ?a "[]" "bricks ?a" ?r, OF _ a(2)] by blast
  from bricks_loop_fields [OF s1(1)] have f1:
    "paddle s1 = paddle ?a" "level s1 = level ?a" "score s1 = score ?a" "lives s1 = lives ?a"
    "stage_bricks s1 = stage_bricks ?a" "row_range s1 = row_range ?a" "users s1 = users ?a"
    "current_user s1 = current_user ?a" "game_state s1 = game_state ?a"
    by simp_all
  have b1: "bricks s1 = surviving_bricks s"
    using s1(3) a(1) by simp
  let ?c = "tick_scoring (tick_fragments (tick_particles s1))"
  let ?m = "tick_level_up ?c"
  have res: "tick_before_bottom inp s = Inr ?m"
    using s1(1) by (simp add: tick_before_bottom_def check_collision_with_bricks_def)
  have c: "bricks ?c = surviving_bricks s" "lives ?c = lives s" "users ?c = users s"
    "current_user ?c = current_user s" "level ?c = level s" "row_range ?c = row_range s"
    "game_state ?c = game_state s" "ball_rect (ball ?c) = ?r" "paddle ?c = paddle ?a"
    "power_ups ?c = power_ups s1"
    "score ?c = (if int (length (surviving_bricks s)) < stage_bricks s
                then score s + (stage_bricks s - int (length (surviving_bricks s))) * (level s * 100)
                else score s)"
    "stage_bricks ?c = (if int (length (surviving_bricks s)) < stage_bricks s
                             then int (length (surviving_bricks s)) else stage_bricks s)"
    using b1 f1 a s1(2)
    by (simp_all add: tick_scoring_def scoring_def tick_fragments_def tick_particles_def)
  have pw: "list_all (\<lambda>p. rw (pu_rect p) = 20 \<and> rh (pu_rect p) = 20) (power_ups s) \<Longrightarrow>
      list_all (\<lambda>p. rw (pu_rect p) = 20 \<and> rh (pu_rect p) = 20) (power_ups s1)"
    using s1(4) a(3) by (simp add: all_dropped_power_ups_sized)
  have wf: "well_formed s \<Longrightarrow> well_formed ?m"
    using c a pw
    by (simp add: well_formed_def tick_level_up_def level_up_fields Paddle_init_def Rect_def)
  show ?thesis
    apply (intro exI [of _ ?m])
    using res c wf
    apply (simp add: tick_level_up_def level_up_fields length_bricks_level_up)
    done
qed

section \<open>A whole tick of a well-formed running game\<close>

text \<open>
  The tick returns.  \<open>m\<close> is the state at the test for the bottom of the
  screen, \<open>s'\<close> the state at the end of the tick.
\<close>

lemma update_game_effect:
  assumes run: "game_state s = GAME_RUNNING" and wf: "well_formed s"
  shows "\<exists>m s' u r. tick_before_bottom inp s = Inr m \<and> update_game inp s = Inr s' \<and>
     current_user s = Some u \<and> users s u = Some r \<and>
     lives m = lives s \<and>
     score m = (if int (length (surviving_bricks s)) < stage_bricks s
                then score s + (stage_bricks s - int (length (surviving_bricks s))) * (level s * 100)
                else score s) \<and>
     (if surviving_bricks s = []
      then length (bricks m) = 10 * nat (min 10 (row_range s + 1)) \<and> level m = level s + 1 \<and>
           row_range m = min 10 (row_range s + 1) \<and>
           ball_rect (ball m) = ball_rect Ball_init \<and> stage_bricks m = int (length (bricks m))
      else bricks m = surviving_bricks s \<and> level m = level s \<and> row_range m = row_range s \<and>
           ball_rect (ball m) = moved_ball_rect s \<and>
           stage_bricks m = (if int (length (surviving_bricks s)) < stage_bricks s
                             then int (length (surviving_bricks s)) else stage_bricks s)) \<and>
     game_state s' = (if 600 \<le> rect_bottom (ball_rect (ball m)) \<and> lives m = 1 then GAME_OVER
                      else GAME_RUNNING) \<and>
     users s' = (if 600 \<le> rect_bottom (ball_rect (ball m)) \<and> lives m = 1 \<and> score m > high_score r
                 then (users s)(u \<mapsto> r\<lparr>high_score := score m\<rparr>) else users s) \<and>
     current_user s' = current_user s \<and>
     bricks s' = bricks m \<and> level s' = level m \<and> score s' = score m \<and>
     stage_bricks s' = stage_bricks m \<and> row_range s' = row_range m \<and> well_formed s'"
proof -
  from wf obtain u r where u: "current_user s = Some u" "users s u = Some r"
    by (auto simp add: well_formed_def lookup_user_def split: option.splits)
  from tick_before_bottom_effect [of inp s] obtain m where m:
    "tick_before_bottom inp s = Inr m"
    "lives m = lives s" "users m = users s" "current_user m = current_user s"
    "score m = (if int (length (surviving_bricks s)) < stage_bricks s
                then score s + (stage_bricks s - int (length (surviving_bricks s))) * (level s * 100)
                else score s)"
    "if surviving_bricks s = []
      then length (bricks m) = 10 * nat (min 10 (row_range s + 1)) \<and> level m = level s + 1 \<and>
           row_range m = min 10 (row_range s + 1) \<and> game_state m = GAME_RUNNING \<and>
           ball_rect (ball m) = ball_rect Ball_init \<and> stage_bricks m = int (length (bricks m))
      else bricks m = surviving_bricks s \<and> level m = level s \<and> row_range m = row_range s \<and>
           game_state m = game_state s \<and> ball_rect (ball m) = moved_ball_rect s \<and>
           stage_bricks m = (if int (length (surviving_bricks s)) < stage_bricks s
                             then int (length (surviving_bricks s)) else stage_bricks s)"
    "if well_formed s then well_formed m else True"
    by blast
  from m(7) wf have wfm: "well_formed m" by simp
  from m(6) run have gm: "game_state m = GAME_RUNNING" by (simp split: if_splits)
  from u m(3,4) have um: "current_user m = Some u" "users m u = Some r" by simp_all
  from tick_from_bottom_effect [OF wfm um, of inp] obtain s' where s':
    "tick_from_bottom inp m = Inr s'"
    "game_state s' = (if 600 \<le> rect_bottom (ball_rect (ball m)) \<and> lives m = 1 then GAME_OVER else game_state m)"
    "users s' = (if 600 \<le> rect_bottom (ball_rect (ball m)) \<and> lives m = 1 \<and> score m > high_score r
                 then (users m)(u \<mapsto> r\<lparr>high_score := score m\<rparr>) else users m)"
    "current_user s' = current_user m"
    "bricks s' = bricks m" "level s' = level m" "score s' = score m"
    "stage_bricks s' = stage_bricks m" "row_range s' = row_range m" "well_formed s'"
    by blast
  have res: "update_game inp s = Inr s'"
    using run m(1) s'(1) by (simp add: update_game_def)
  have m6: "if surviving_bricks s = []
      then length (bricks m) = 10 * nat (min 10 (row_range s + 1)) \<and> level m = level s + 1 \<and>
           row_range m = min 10 (row_range s + 1) \<and>
           ball_rect (ball m) = ball_rect Ball_init \<and> stage_bricks m = int (length (bricks m))
      else bricks m = surviving_bricks s \<and> level m = level s \<and> row_range m = row_range s \<and>
           ball_rect (ball m) = moved_ball_rect s \<and>
           stage_bricks m = (if int (length (surviving_bricks s)) < stage_bricks s
                             then int (length (surviving_bricks s)) else stage_bricks s)"
  proof (cases "surviving_bricks s = []")
    case True
    with m(6) show ?thesis by simp
  next
    case False
    with m(6) show ?thesis by simp
  qed
  have g: "game_state s' = (if 600 \<le> rect_bottom (ball_rect (ball m)) \<and> lives m = 1 then GAME_OVER
                      else GAME_RUNNING)"
    using s'(2) gm by simp
  have us: "users s' = (if 600 \<le> rect_bottom (ball_rect (ball m)) \<and> lives m = 1 \<and> score m > high_score r
                 then (users s)(u \<mapsto> r\<lparr>high_score := score m\<rparr>) else users s)"
    using s'(3) m(3) by simp
  have cu: "current_user s' = current_user s"
    using s'(4) m(4) by simp
  from m(1) res u m(2) m(5) m6 g us cu s'(5,6,7,8,9,10) show ?thesis
    by blast
qed

text \<open>The concrete sessions are well formed; the tick clears the first and leaves the second alone.\<close>

lemma last_brick_game_fields:
  "game_state last_brick_game = GAME_RUNNING"
  "well_formed last_brick_game"
  "bricks last_brick_game = [Brick_init 330 130]"
  "stage_bricks last_brick_game = 1"
  "score last_brick_game = 4900"
  "level last_brick_game = 1"
  "row_range last_brick_game = 5"
  "lives last_brick_game = 3"
  "current_user last_brick_game = Some ''bob''"
  "users last_brick_game = test_users"
  "moved_ball_rect last_brick_game = Rect 395 145 20 20"
  by (simp_all add: last_brick_game_def BreakoutGame_init_def Let_def well_formed_def
      Paddle_init_def Rect_def lookup_user_def test_users_def Ball_init_def move_ip_def py_int_def)

lemma last_brick_game_cleared: "surviving_bricks last_brick_game = []"
  by (simp add: last_brick_game_fields Brick_init_def Rect_def colliderect_def)

lemma last_life_game_fields:
  "game_state last_life_game = GAME_RUNNING"
  "well_formed last_life_game"
  "bricks last_life_game = [Brick_init 330 130, Brick_init 10 10]"
  "stage_bricks last_life_game = 2"
  "score last_life_game = 4800"
  "level last_life_game = 1"
  "lives last_life_game = 1"
  "current_user last_life_game = Some ''bob''"
  "users last_life_game = test_users"
  "moved_ball_rect last_life_game = Rect 105 581 20 20"
  by (simp_all add: last_life_game_def last_brick_game_def BreakoutGame_init_def Let_def well_formed_def
      Paddle_init_def Rect_def lookup_user_def test_users_def Ball_init_def move_ip_def py_int_def)

lemma last_life_game_untouched:
  "surviving_bricks last_life_game = [Brick_init 330 130, Brick_init 10 10]"
  by (simp add: last_life_game_fields Brick_init_def Rect_def colliderect_def)

section \<open>The number of bricks during a tick (claim C4)\<close>

text \<open>
  Claim C4 says that in every tick of the running game the number of live
  bricks at the end is at most the number at the start.  It fails in the tick
  that destroys the last brick: \<^const>\<open>level_up\<close> runs in the same tick and builds
  the grid of the next level.  In the session below the tick starts with one
  brick and ends with 60.
\<close>

theorem level_up_tick_adds_bricks:
  "game_state last_brick_game = GAME_RUNNING \<and> length (bricks last_brick_game) = 1 \<and>
   \<not> isl (update_game no_keys last_brick_game) \<and>
   length (bricks (projr (update_game no_keys last_brick_game))) = 60"
proof -
  from update_game_effect [of last_brick_game no_keys] obtain m :: game and s' where
    "update_game no_keys last_brick_game = Inr s'" "bricks s' = bricks m"
    "length (bricks m) = 10 * nat (min 10 (row_range last_brick_game + 1))"
    by (auto simp add: last_brick_game_fields(1,2) last_brick_game_cleared)
  then show ?thesis by (simp add: last_brick_game_fields)
qed

text \<open>
  Claim C4 as amended: a tick of a well-formed running game returns; if at least
  one brick survives the collision pass, the bricks at the end of the tick are
  exactly the bricks of the start that the moved ball does not touch, so their
  number has not grown; if no brick survives, the tick levels up and ends with
  the fresh grid of \<open>10 \<cdot> min(10, row_range + 1)\<close> bricks.
\<close>

theorem bricks_decrease_or_level_up:
  assumes "game_state s = GAME_RUNNING" and "well_formed s"
  shows "\<exists>s'. update_game inp s = Inr s' \<and>
     (if surviving_bricks s = []
      then level s' = level s + 1 \<and> length (bricks s') = 10 * nat (min 10 (row_range s + 1))
      else bricks s' = surviving_bricks s \<and> length (bricks s') \<le> length (bricks s))"
proof -
  from update_game_effect [OF assms, of inp] obtain m :: game and s' where
    "update_game inp s = Inr s'" "bricks s' = bricks m" "level s' = level m"
    "if surviving_bricks s = []
      then length (bricks m) = 10 * nat (min 10 (row_range s + 1)) \<and> level m = level s + 1 \<and>
           row_range m = min 10 (row_range s + 1) \<and>
           ball_rect (ball m) = ball_rect Ball_init \<and> stage_bricks m = int (length (bricks m))
      else bricks m = surviving_bricks s \<and> level m = level s \<and> row_range m = row_range s \<and>
           ball_rect (ball m) = moved_ball_rect s \<and>
           stage_bricks m = (if int (length (surviving_bricks s)) < stage_bricks s
                             then int (length (surviving_bricks s)) else stage_bricks s)"
    by blast
  then show ?thesis
    by (intro exI [of _ s']) (simp split: if_splits)
qed

theorem bricks_decrease_or_level_up_witness:
  "\<exists>s'. update_game no_keys last_life_game = Inr s' \<and> length (bricks s') \<le> 2"
proof -
  from bricks_decrease_or_level_up [of last_life_game no_keys]
  obtain s' where "update_game no_keys last_life_game = Inr s'"
    "bricks s' = surviving_bricks last_life_game"
    by (auto simp add: last_life_game_fields(1,2) last_life_game_untouched)
  then show ?thesis by (simp add: last_life_game_untouched)
qed

section \<open>Scoring (claim C8)\<close>

text \<open>
  Claim C8: whenever the number of live bricks has decreased by \<open>k > 0\<close> since
  the last scored baseline \<^const>\<open>stage_bricks\<close>, the update awards exactly
  \<open>k \<cdot> level \<cdot> 100\<close> points and sets the baseline to the current number of
  bricks.  The number of bricks after the collision pass is the number of
  surviving bricks; the level is the one at the start of the tick; at the end
  of the tick the baseline equals the number of bricks, also when the tick has
  levelled up.
\<close>

theorem scoring_awards_destroyed_bricks:
  assumes "game_state s = GAME_RUNNING" and "well_formed s"
    and "int (length (surviving_bricks s)) < stage_bricks s"
  shows "\<exists>s'. update_game inp s = Inr s' \<and>
     score s' = score s + (stage_bricks s - int (length (surviving_bricks s))) * (level s * 100) \<and>
     stage_bricks s' = int (length (bricks s'))"
proof -
  from update_game_effect [OF assms(1,2), of inp] obtain m :: game and s' where
    "update_game inp s = Inr s'" "bricks s' = bricks m" "score s' = score m"
    "stage_bricks s' = stage_bricks m"
    "score m = (if int (length (surviving_bricks s)) < stage_bricks s
                then score s + (stage_bricks s - int (length (surviving_bricks s))) * (level s * 100)
                else score s)"
    "if surviving_bricks s = []
      then length (bricks m) = 10 * nat (min 10 (row_range s + 1)) \<and> level m = level s + 1 \<and>
           row_range m = min 10 (row_range s + 1) \<and>
           ball_rect (ball m) = ball_rect Ball_init \<and> stage_bricks m = int (length (bricks m))
      else bricks m = surviving_bricks s \<and> level m = level s \<and> row_range m = row_range s \<and>
           ball_rect (ball m) = moved_ball_rect s \<and>
           stage_bricks m = (if int (length (surviving_bricks s)) < stage_bricks s
                             then int (length (surviving_bricks s)) else stage_bricks s)"
    by blast
  with assms(3) show ?thesis
    by (intro exI [of _ s']) (simp split: if_splits)
qed

text \<open>Level 1, one brick destroyed in the tick: 100 points.\<close>

theorem scoring_awards_destroyed_bricks_witness:
  "level last_brick_game = 1 \<and> stage_bricks last_brick_game - int (length (surviving_bricks last_brick_game)) = 1 \<and>
   (\<exists>s'. update_game no_keys last_brick_game = Inr s' \<and> score s' = score last_brick_game + 100)"
proof -
  have "int (length (surviving_bricks last_brick_game)) < stage_bricks last_brick_game"
    by (simp add: last_brick_game_cleared last_brick_game_fields(4))
  from scoring_awards_destroyed_bricks [OF last_brick_game_fields(1,2) this, of no_keys]
  obtain s' where "update_game no_keys last_brick_game = Inr s'"
    "score s' = score last_brick_game +
       (stage_bricks last_brick_game - int (length (surviving_bricks last_brick_game))) *
       (level last_brick_game * 100)"
    by blast
  then have "update_game no_keys last_brick_game = Inr s' \<and> score s' = score last_brick_game + 100"
    by (simp add: last_brick_game_cleared last_brick_game_fields(4,6))
  then show ?thesis
    by (auto simp add: last_brick_game_cleared last_brick_game_fields(4,6))
qed

section \<open>Game over and the high score (claim C9)\<close>

text \<open>
  Claim C9: in every tick of the running game with one life left in which the
  bottom of the ball has reached the bottom of the screen (600) when the tick
  tests for it, the game goes to \<^const>\<open>GAME_OVER\<close>, and the stored high score of
  the current user is set to the score of the session if and only if that score
  is strictly greater than the stored one; otherwise the dictionary is
  unchanged.  \<open>m\<close> is the state at the test, so \<open>score m\<close> includes the points
  of this tick.
\<close>

theorem game_over_records_high_score:
  assumes "game_state s = GAME_RUNNING" and "well_formed s"
    and "tick_before_bottom inp s = Inr m"
    and "lives s = 1" and "600 \<le> rect_bottom (ball_rect (ball m))"
    and "current_user s = Some u" and "users s u = Some r"
  shows "\<exists>s'. update_game inp s = Inr s' \<and> game_state s' = GAME_OVER \<and>
     users s' = (if high_score r < score m then (users s)(u \<mapsto> r\<lparr>high_score := score m\<rparr>)
                 else users s)"
proof -
  from update_game_effect [OF assms(1,2), of inp] obtain m' s' u' r' where e:
    "tick_before_bottom inp s = Inr m'" "update_game inp s = Inr s'"
    "current_user s = Some u'" "users s u' = Some r'" "lives m' = lives s"
    "game_state s' = (if 600 \<le> rect_bottom (ball_rect (ball m')) \<and> lives m' = 1 then GAME_OVER
                      else GAME_RUNNING)"
    "users s' = (if 600 \<le> rect_bottom (ball_rect (ball m')) \<and> lives m' = 1 \<and> score m' > high_score r'
                 then (users s)(u' \<mapsto> r'\<lparr>high_score := score m'\<rparr>) else users s)"
    by blast
  from e(1) assms(3) have "m' = m" by simp
  moreover from e(3,4) assms(6,7) have "u' = u" "r' = r" by simp_all
  ultimately show ?thesis
    using e assms(4,5) by (intro exI [of _ s']) simp
qed

theorem game_over_records_high_score_witness:
  "\<exists>s'. update_game no_keys last_life_game = Inr s' \<and> game_state s' = GAME_OVER \<and>
     users s' ''bob'' = Some \<lparr>password = sha256_hexdigest ''secret'', high_score = 4800\<rparr>"
proof -
  from tick_before_bottom_effect [of no_keys last_life_game] obtain m where m0:
    "tick_before_bottom no_keys last_life_game = Inr m"
    "score m = score last_life_game"
    "ball_rect (ball m) = moved_ball_rect last_life_game"
    by (auto simp add: last_life_game_untouched last_life_game_fields(4))
  then have m: "tick_before_bottom no_keys last_life_game = Inr m"
    "score m = 4800" "ball_rect (ball m) = Rect 105 581 20 20"
    by (simp_all add: last_life_game_fields(5,10))
  have b: "600 \<le> rect_bottom (ball_rect (ball m))"
    by (simp add: m(3) rect_bottom_def Rect_def)
  have u: "users last_life_game ''bob'' =
      Some \<lparr>password = sha256_hexdigest ''secret'', high_score = 1000\<rparr>"
    by (simp add: last_life_game_fields test_users_def)
  from game_over_records_high_score [OF last_life_game_fields(1,2) m(1) last_life_game_fields(7) b
      last_life_game_fields(8) u]
  obtain s' where "update_game no_keys last_life_game = Inr s'" "game_state s' = GAME_OVER"
    "users s' = (users last_life_game)
       (''bob'' \<mapsto> \<lparr>password = sha256_hexdigest ''secret'', high_score = 4800\<rparr>)"
    by (auto simp add: m(2))
  then show ?thesis by simp
qed

section \<open>The loop while the window has no focus (claim C7)\<close>



lemma run_iteration_unfocused:
  assumes "handle_events evs s = Inr s1" and "\<not> focused s1"
  shows "run_iteration inp evs s = Inr (draw_game s1)"
  using assms by (simp add: run_iteration_def)




lemma unfocused_game_fields:
  "focused unfocused_game = False"
  "game_state unfocused_game = GAME_RUNNING"
  "map pt_lifetime (trail (ball unfocused_game)) = [50]"
  "map frame_counter (bricks unfocused_game) = [0]"
  "length (trail (ball unfocused_game)) = 1"
  by (simp_all add: unfocused_game_def last_brick_game_def BreakoutGame_init_def Let_def
      Particle_init_def Brick_init_def)










text \<open>
  Events are handled whether the window has the focus or not: the restart key
  resets the score of an unfocused game that is over.  This is why the theorem
  below compares the end of an iteration with the state after its events.
\<close>

lemma unfocused_events_still_act:
  "\<not> focused (unfocused_game\<lparr>game_state := GAME_OVER\<rparr>) \<and>
   score (unfocused_game\<lparr>game_state := GAME_OVER\<rparr>) = 4900 \<and>
   run_iteration no_keys [KEYDOWN K_r ''r''] (unfocused_game\<lparr>game_state := GAME_OVER\<rparr>) =
     Inr (draw_game (reset_game (unfocused_game\<lparr>game_state := GAME_OVER\<rparr>))) \<and>
   score (draw_game (reset_game (unfocused_game\<lparr>game_state := GAME_OVER\<rparr>))) = 0 \<and>
   game_state (draw_game (reset_game (unfocused_game\<lparr>game_state := GAME_OVER\<rparr>))) = POST_LOGIN_MENU"
proof -
  let ?s = "unfocused_game\<lparr>game_state := GAME_OVER\<rparr>"
  have f: "\<not> focused ?s" "score ?s = 4900"
    by (simp_all add: unfocused_game_fields unfocused_game_def last_brick_game_fields(5))
  have h: "handle_events [KEYDOWN K_r ''r''] ?s = Inr (reset_game ?s)"
    by (simp add: handle_event_def Let_def is_keydown_def)
  have g: "game_state (reset_game ?s) = POST_LOGIN_MENU" "score (reset_game ?s) = 0"
    "\<not> focused (reset_game ?s)"
    using f(1) by (simp_all add: reset_game_def Let_def)
  from h g(3) have r: "run_iteration no_keys [KEYDOWN K_r ''r''] ?s = Inr (draw_game (reset_game ?s))"
    by (rule run_iteration_unfocused)
  have d: "draw_game (reset_game ?s) = reset_game ?s"
    using g(1) by (simp add: draw_game_def)
  from f r g d show ?thesis by simp
qed



section \<open>The states of the main loop are well formed\<close>

text \<open>
  The hypothesis \<^const>\<open>well_formed\<close> of the theorems about a tick holds in every
  running state that the main loop reaches from the constructor: the invariant
  \<^const>\<open>session_inv\<close> holds initially and is kept by the handling of events, by
  the tick and by drawing.
\<close>

lemma session_inv_running:
  "session_inv s \<Longrightarrow> game_state s \<noteq> MAIN_MENU \<Longrightarrow> well_formed s"
  by (simp add: session_inv_def well_formed_def)

lemma well_formed_session_inv: "well_formed s \<Longrightarrow> session_inv s"
  by (simp add: session_inv_def well_formed_def)

lemma session_inv_init: "session_inv (BreakoutGame_init us g)"
  by (simp add: session_inv_def BreakoutGame_init_def Let_def Paddle_init_def Rect_def)

lemma session_inv_login_user:
  assumes "session_inv s"
  shows "session_inv (login_user s)"
proof -
  let ?u = "strip (tb_text (username_input s))"
  let ?p = "strip (pb_text (password_input s))"
  show ?thesis
  proof (cases "?u \<noteq> [] \<and> ?p \<noteq> [] \<and> auth_login_user ?u ?p (users s)")
    case True
    then have "users s ?u \<noteq> None"
      by (auto simp add: auth_login_user_def split: option.splits)
    with True assms show ?thesis
      by (simp add: login_user_def Let_def session_inv_def lookup_user_def split: prod.splits)
  next
    case False
    with assms show ?thesis
      by (auto simp add: login_user_def Let_def session_inv_def TextInputBox_reset_def
          PassTextInputBox_reset_def)
  qed
qed

lemma session_inv_register_user:
  assumes "session_inv s" and "game_state s = MAIN_MENU"
  shows "session_inv (register_user s) \<and> game_state (register_user s) = MAIN_MENU"
  using assms
  by (simp add: register_user_def Let_def session_inv_def split: prod.splits)

lemma session_inv_menu_events:
  assumes "session_inv s" and "game_state s = MAIN_MENU"
  shows "session_inv (menu_events ev s)"
proof -
  obtain ub m1 where u: "TextInputBox_handle_event ev (username_input s) = (ub, m1)"
    by (cases "TextInputBox_handle_event ev (username_input s)")
  obtain pb m2 where p: "PassTextInputBox_handle_event ev (password_input s) = (pb, m2)"
    by (cases "PassTextInputBox_handle_event ev (password_input s)")
  obtain lb lc where l: "Button_handle_event ev (login_button s) = (lb, lc)"
    by (cases "Button_handle_event ev (login_button s)")
  let ?s1 = "s\<lparr>username_input := ub, password_input := pb, login_button := lb,
               console := console s @ m1 @ m2\<rparr>"
  have s1: "session_inv ?s1" "game_state ?s1 = MAIN_MENU"
    using assms by (simp_all add: session_inv_def)
  obtain rb rc where r: "Button_handle_event ev (register_button ?s1) = (rb, rc)"
    by (cases "Button_handle_event ev (register_button ?s1)")
  let ?s2 = "?s1\<lparr>register_button := rb\<rparr>"
  have s2: "session_inv ?s2" "game_state ?s2 = MAIN_MENU"
    using assms by (simp_all add: session_inv_def)
  have "menu_events ev s =
      (if lc then login_user ?s1 else if rc then register_user ?s2 else ?s2)"
    using u p l r by (simp add: menu_events_def Let_def)
  with session_inv_login_user [OF s1(1)] session_inv_register_user [OF s2] s2(1)
  show ?thesis by simp
qed

lemma session_inv_reset_game:
  assumes "session_inv s" and "game_state s \<noteq> MAIN_MENU"
  shows "session_inv (reset_game s) \<and> game_state (reset_game s) \<noteq> MAIN_MENU"
  using assms
  by (simp add: reset_game_def Let_def session_inv_def Paddle_init_def Rect_def)

lemma session_inv_set_state:
  assumes "session_inv t" and "game_state t \<noteq> MAIN_MENU" and "st \<noteq> MAIN_MENU"
  shows "session_inv (t\<lparr>game_state := st\<rparr>)"
  using assms by (simp add: session_inv_def)

lemma session_inv_set_focused: "session_inv t \<Longrightarrow> session_inv (t\<lparr>focused := f\<rparr>)"
  by (simp add: session_inv_def)

lemma session_inv_handle_event:
  assumes "session_inv s" and "handle_event ev s = Inr s'"
  shows "session_inv s'"
proof -
  from assms(2) have nq: "ev \<noteq> QUIT" by (auto simp add: handle_event_def)
  define s1 where "s1 = (if ev = WINDOWFOCUSLOST then s\<lparr>focused := False\<rparr> else s)"
  define s2 where "s2 = (if ev = WINDOWFOCUSGAINED then s1\<lparr>focused := True\<rparr> else s1)"
  define s3 where "s3 = (if game_state s2 = MAIN_MENU then menu_events ev s2 else s2)"
  define s4 where "s4 = (if game_state s3 = POST_LOGIN_MENU \<and> is_keydown K_RETURN ev
                   then s3\<lparr>game_state := GAME_RUNNING\<rparr> else s3)"
  define s5 where "s5 = (if game_state s4 = GAME_RUNNING \<and> is_keydown K_p ev
                   then s4\<lparr>game_state := PAUSED\<rparr> else s4)"
  define s6 where "s6 = (if game_state s5 = PAUSED \<and> is_keydown K_RETURN ev
                   then s5\<lparr>game_state := GAME_RUNNING\<rparr> else s5)"
  define s7 where "s7 = (if game_state s6 = GAME_OVER \<and> is_keydown K_r ev
                   then reset_game s6 else s6)"
  have i1: "session_inv s1"
    unfolding s1_def using assms(1) by (simp add: session_inv_set_focused)
  have i2: "session_inv s2"
    unfolding s2_def using i1 by (simp add: session_inv_set_focused)
  have i3: "session_inv s3"
    unfolding s3_def using i2 by (simp add: session_inv_menu_events)
  have i4: "session_inv s4"
    unfolding s4_def using i3 by (simp add: session_inv_set_state)
  have i5: "session_inv s5"
    unfolding s5_def using i4 by (simp add: session_inv_set_state)
  have i6: "session_inv s6"
    unfolding s6_def using i5 by (simp add: session_inv_set_state)
  have i7: "session_inv s7"
    unfolding s7_def using i6 by (simp add: session_inv_reset_game)
  have "handle_event ev s = Inr s7"
    unfolding handle_event_def Let_def s7_def s6_def s5_def s4_def s3_def s2_def s1_def
    by (simp only: nq if_False)
  with assms(2) i7 show ?thesis by simp
qed

lemma session_inv_handle_events:
  assumes "session_inv s" and "handle_events evs s = Inr s'"
  shows "session_inv s'"
  using assms
proof (induction evs arbitrary: s)
  case Nil
  then show ?case by simp
next
  case (Cons ev evs)
  from Cons.prems(2) obtain s1 where s1: "handle_event ev s = Inr s1" "handle_events evs s1 = Inr s'"
    by (auto split: sum.splits)
  from session_inv_handle_event [OF Cons.prems(1) s1(1)] have "session_inv s1" .
  from Cons.IH [OF this s1(2)] show ?case .
qed

lemma session_inv_draw_game: "session_inv (draw_game s) = session_inv s"
  by (cases "game_state s")
     (simp_all add: draw_game_def draw_main_menu_def draw_game_running_def session_inv_def
        split: prod.splits)

lemma session_inv_update_game:
  assumes "session_inv s" and "game_state s = GAME_RUNNING"
  shows "\<exists>s'. update_game inp s = Inr s' \<and> session_inv s'"
proof -
  from assms have "well_formed s" by (simp add: session_inv_running)
  from update_game_effect [OF assms(2) this, of inp] obtain s' where
    "update_game inp s = Inr s'" "well_formed s'" by blast
  then show ?thesis by (auto intro: well_formed_session_inv)
qed

lemma session_inv_run_iteration:
  assumes "session_inv s" and "run_iteration inp evs s = Inr s'"
  shows "session_inv s'"
proof -
  from assms(2) obtain s1 where s1: "handle_events evs s = Inr s1"
    by (cases "handle_events evs s") (simp_all add: run_iteration_def)
  from session_inv_handle_events [OF assms(1) s1] have i1: "session_inv s1" .
  show ?thesis
  proof (cases "focused s1 \<and> game_state s1 = GAME_RUNNING")
    case True
    from session_inv_update_game [OF i1, of inp] True obtain s2 where
      s2: "update_game inp s1 = Inr s2" "session_inv s2" by blast
    from True s1 s2(1) have "run_iteration inp evs s = Inr (draw_game s2)"
      by (simp add: run_iteration_def)
    with assms(2) have "s' = draw_game s2" by simp
    with s2(2) show ?thesis
      by (simp add: session_inv_draw_game)
  next
    case False
    with s1 have "run_iteration inp evs s = Inr (draw_game s1)"
      by (simp add: run_iteration_def)
    with assms(2) have "s' = draw_game s1" by simp
    with i1 show ?thesis
      by (simp add: session_inv_draw_game)
  qed
qed

lemma session_inv_run:
  assumes "session_inv s" and "run is s = Inr s'"
  shows "session_inv s'"
  using assms
proof (induction "is" arbitrary: s)
  case Nil
  then show ?case by simp
next
  case (Cons i "is")
  from Cons.prems(2) obtain s1 where s1: "run_iteration (fst i) (snd i) s = Inr s1" "run is s1 = Inr s'"
    by (auto split: sum.splits)
  from session_inv_run_iteration [OF Cons.prems(1) s1(1)] have "session_inv s1" .
  from Cons.IH [OF this s1(2)] show ?case .
qed

lemma reachable_running_well_formed:
  assumes "run is (BreakoutGame_init us g) = Inr s" and "game_state s = GAME_RUNNING"
  shows "well_formed s"
  using session_inv_run [OF session_inv_init assms(1)] assms(2)
  by (simp add: session_inv_running)

end
